theory Spec2Isabelle
  imports Main
begin

section \<open>The package initialiser \<^verbatim>\<open>yews/datasets/__init__.py\<close>\<close>

text \<open>
  The file is a list of \<^verbatim>\<open>from ... import ...\<close> statements followed by one assignment
  to \<^verbatim>\<open>__all__\<close>. What it does is decided by the import statement of Python, so the
  model has two layers: the statements of the file, kept as data in the order of the
  file, and the meaning of each kind of statement, as the interpreter executes it.

  The three modules the file imports from (\<^verbatim>\<open>base\<close>, \<^verbatim>\<open>packaged_datasets\<close>,
  \<^verbatim>\<open>utils\<close>) are not part of the file. They are a parameter: for each of them, either
  the exception its body raises or the dictionary its body builds. A body is taken as a
  whole. When one of the three imports another of them first, the bodies run in another
  order and the module objects get other identities than the ones computed here; the
  names bound in the package and the objects of the collaborators bound to them are the
  same, and none of the properties C1 to C10 below speaks of that order or of those
  identities.
\<close>

subsection \<open>Objects, namespaces, modules\<close>

type_synonym name = string

text \<open>
  Objects are references. \<open>Ref\<close> is an object of a collaborator (a class, a function),
  known by its identity only; \<open>ModuleRef\<close> is a module object; \<open>StrList\<close> is a sequence
  of strings, the only kind of object whose content the import statement reads.
\<close>

datatype pyobj = PyNone | Ref nat | ModuleRef nat | StrList "string list"

type_synonym namespace = "name \<rightharpoonup> pyobj"

datatype error =
    LoadFailure name
  | ImportError name name
  | AttributeError name name
  | TypeError name

record pymodule =
  mod_id :: nat
  mod_dict :: namespace

text \<open>
  The interpreter: the table of loaded modules (\<^verbatim>\<open>sys.modules\<close>), the identity the
  next module object gets, and the module bodies executed so far, in order.
\<close>

record interp =
  sys_modules :: "name \<rightharpoonup> pymodule"
  next_id :: nat
  executed :: "name list"

type_synonym loaders = "name \<Rightarrow> error + namespace"

definition pkg_name :: name where
  "pkg_name = ''yews.datasets''"

definition qual :: "name \<Rightarrow> name" where
  "qual sub = pkg_name @ ''.'' @ sub"

subsection \<open>The import statement\<close>

text \<open>
  Importing a submodule of the package. A module found in the table is returned as it
  is. Otherwise its body runs; when it raises, the exception goes to the importer and
  the table keeps no entry for it; when it finishes, the module enters the table and is
  bound in the package under its short name.
\<close>

definition import_submodule ::
  "loaders \<Rightarrow> name \<Rightarrow> namespace \<times> interp \<Rightarrow> (error + pymodule \<times> namespace) \<times> interp" where
  "import_submodule ld sub = (\<lambda>(ns, st).
     case sys_modules st (qual sub) of
       Some m \<Rightarrow> (Inr (m, ns), st)
     | None \<Rightarrow>
         let st1 = st\<lparr>next_id := next_id st + 1, executed := executed st @ [qual sub]\<rparr> in
         (case ld sub of
            Inl e \<Rightarrow> (Inl e, st1)
          | Inr d \<Rightarrow>
              let m = \<lparr>mod_id = next_id st, mod_dict = d\<rparr> in
              (Inr (m, ns(sub \<mapsto> ModuleRef (mod_id m))),
               st1\<lparr>sys_modules := (sys_modules st1)(qual sub \<mapsto> m)\<rparr>)))"

fun leading_underscore :: "name \<Rightarrow> bool" where
  "leading_underscore [] = False"
| "leading_underscore (c # cs) = (c = CHR ''_'')"

text \<open>
  \<^verbatim>\<open>from m import *\<close> with an \<^verbatim>\<open>__all__\<close>: the names are fetched and bound one by one,
  in the order of the list; the first one the module does not have raises
  \<^verbatim>\<open>AttributeError\<close>, and the names before it stay bound.
\<close>

fun bind_names :: "name \<Rightarrow> namespace \<Rightarrow> name list \<Rightarrow> namespace \<Rightarrow> error option \<times> namespace" where
  "bind_names mname src [] scope = (None, scope)"
| "bind_names mname src (n # ns) scope =
     (case src n of
        None \<Rightarrow> (Some (AttributeError mname n), scope)
      | Some v \<Rightarrow> bind_names mname src ns (scope(n \<mapsto> v)))"

text \<open>
  Without an \<^verbatim>\<open>__all__\<close> the statement binds every name of the module's dictionary that
  does not start with an underscore. An \<^verbatim>\<open>__all__\<close> that is not a sequence raises
  \<^verbatim>\<open>TypeError\<close>.
\<close>

definition import_star :: "name \<Rightarrow> namespace \<Rightarrow> namespace \<Rightarrow> error option \<times> namespace" where
  "import_star mname src scope =
     (case src ''__all__'' of
        None \<Rightarrow>
          (None, (\<lambda>n. if leading_underscore n then scope n
                       else (case src n of None \<Rightarrow> scope n | Some v \<Rightarrow> Some v)))
      | Some a \<Rightarrow>
          (case a of
             StrList names \<Rightarrow> bind_names mname src names scope
           | PyNone \<Rightarrow> (Some (TypeError mname), scope)
           | Ref r \<Rightarrow> (Some (TypeError mname), scope)
           | ModuleRef r \<Rightarrow> (Some (TypeError mname), scope)))"

subsection \<open>The statements of the file\<close>

text \<open>
  \<open>FromImport m x\<close> is \<^verbatim>\<open>from .m import x\<close>, \<open>FromImportStar m\<close> is
  \<^verbatim>\<open>from .m import *\<close>, and \<open>AssignList x lit\<close> is \<^verbatim>\<open>x = [...]\<close> for a list display of
  string literals. Each element of the display is kept as the string literal tokens
  that stand between two commas: Python joins adjacent literals into one string.
\<close>

datatype stmt =
    FromImport name name
  | FromImportStar name
  | AssignList name "string list list"

fun exec_stmt :: "loaders \<Rightarrow> stmt \<Rightarrow> namespace \<times> interp \<Rightarrow> (error + namespace) \<times> interp" where
  "exec_stmt ld (FromImport sub n) (ns, st) =
     (case import_submodule ld sub (ns, st) of
        (Inl e, st') \<Rightarrow> (Inl e, st')
      | (Inr (m, ns'), st') \<Rightarrow>
          (case mod_dict m n of
             None \<Rightarrow> (Inl (ImportError (qual sub) n), st')
           | Some v \<Rightarrow> (Inr (ns'(n \<mapsto> v)), st')))"
| "exec_stmt ld (FromImportStar sub) (ns, st) =
     (case import_submodule ld sub (ns, st) of
        (Inl e, st') \<Rightarrow> (Inl e, st')
      | (Inr (m, ns'), st') \<Rightarrow>
          (case import_star (qual sub) (mod_dict m) ns' of
             (Some e, ns'') \<Rightarrow> (Inl e, st')
           | (None, ns'') \<Rightarrow> (Inr ns'', st')))"
| "exec_stmt ld (AssignList x lit) (ns, st) = (Inr (ns(x \<mapsto> StrList (map concat lit))), st)"

fun exec_body :: "loaders \<Rightarrow> stmt list \<Rightarrow> namespace \<times> interp \<Rightarrow> (error + namespace) \<times> interp" where
  "exec_body ld [] (ns, st) = (Inr ns, st)"
| "exec_body ld (s # ss) (ns, st) =
     (case exec_stmt ld s (ns, st) of
        (Inl e, st') \<Rightarrow> (Inl e, st')
      | (Inr ns', st') \<Rightarrow> exec_body ld ss (ns', st'))"

text \<open>Lines 1 to 14 of the file.\<close>

definition import_lines :: "stmt list" where
  "import_lines =
    [FromImport ''base'' ''BaseDataset'',
     FromImport ''base'' ''Dataset'',
     FromImport ''base'' ''DirDataset'',
     FromImport ''base'' ''FileDataset'',
     FromImport ''base'' ''is_dataset'',
     FromImport ''base'' ''PathDataset'',
     FromImport ''packaged_datasets'' ''Mariana'',
     FromImport ''packaged_datasets'' ''PackagedDataset'',
     FromImport ''packaged_datasets'' ''SCSN'',
     FromImport ''packaged_datasets'' ''Wenchuan'',
     FromImport ''packaged_datasets'' ''SCSN_polarity'',
     FromImport ''packaged_datasets'' ''Taiwan_focal_mechanism'',
     FromImport ''packaged_datasets'' ''Taiwan20092010'',
     FromImportStar ''utils'']"

text \<open>
  Lines 16 to 29: the list display assigned to \<^verbatim>\<open>__all__\<close>. Its last two literals have
  no comma between them.
\<close>

definition all_literal :: "string list list" where
  "all_literal =
    [[''BaseDataset''],
     [''PathDataset''],
     [''FileDataset''],
     [''DirDataset''],
     [''Dataset''],
     [''PackagedDataset''],
     [''Wenchuan''],
     [''Mariana''],
     [''SCSN''],
     [''SCSN_polarity''],
     [''Taiwan_focal_mechanism'', ''Taiwan20092010'']]"

definition package_source_with :: "string list list \<Rightarrow> stmt list" where
  "package_source_with lit = import_lines @ [AssignList ''__all__'' lit]"

definition package_source :: "stmt list" where
  "package_source = package_source_with all_literal"

definition all_list :: "name list" where
  "all_list = map concat all_literal"

subsection \<open>Importing the package\<close>

text \<open>
  \<^verbatim>\<open>import yews.datasets\<close>. A package found in the table is returned without running
  anything. Otherwise a module object is created and the body of the file runs in its
  dictionary. When the body raises, the package is taken out of the table again and the
  exception goes to the importer. The attributes the loader gives every module
  (\<^verbatim>\<open>__name__\<close>, \<^verbatim>\<open>__file__\<close>, ...) are left out of the dictionary.
\<close>

definition import_package_with :: "string list list \<Rightarrow> loaders \<Rightarrow> interp \<Rightarrow> (error + pymodule) \<times> interp" where
  "import_package_with lit ld st =
     (case sys_modules st pkg_name of
        Some m \<Rightarrow> (Inr m, st)
      | None \<Rightarrow>
          let st0 = st\<lparr>next_id := next_id st + 1, executed := executed st @ [pkg_name]\<rparr> in
          (case exec_body ld (package_source_with lit) (Map.empty, st0) of
             (Inl e, st') \<Rightarrow> (Inl e, st')
           | (Inr ns, st') \<Rightarrow>
               let m = \<lparr>mod_id = next_id st, mod_dict = ns\<rparr> in
               (Inr m, st'\<lparr>sys_modules := (sys_modules st')(pkg_name \<mapsto> m)\<rparr>)))"

definition import_package :: "loaders \<Rightarrow> interp \<Rightarrow> (error + pymodule) \<times> interp" where
  "import_package = import_package_with all_literal"

text \<open>Attribute lookup on the package, \<^verbatim>\<open>yews.datasets.x\<close>.\<close>

definition getattr_package :: "pymodule \<Rightarrow> name \<Rightarrow> error + pyobj" where
  "getattr_package m n =
     (case mod_dict m n of None \<Rightarrow> Inl (AttributeError pkg_name n) | Some v \<Rightarrow> Inr v)"

text \<open>\<^verbatim>\<open>from yews.datasets import *\<close>, executed in the scope of an importer.\<close>

definition wildcard_import_with ::
  "string list list \<Rightarrow> loaders \<Rightarrow> namespace \<Rightarrow> interp \<Rightarrow> (error option \<times> namespace) \<times> interp" where
  "wildcard_import_with lit ld scope st =
     (case import_package_with lit ld st of
        (Inl e, st') \<Rightarrow> ((Some e, scope), st')
      | (Inr m, st') \<Rightarrow> (import_star pkg_name (mod_dict m) scope, st'))"

definition wildcard_import ::
  "loaders \<Rightarrow> namespace \<Rightarrow> interp \<Rightarrow> (error option \<times> namespace) \<times> interp" where
  "wildcard_import = wildcard_import_with all_literal"

text \<open>
  Assignment to an attribute of the package, \<^verbatim>\<open>yews.datasets.x = v\<close>, by any code of the
  process. A module is a mutable object and the file does nothing to protect it: the
  assignment writes into the dictionary of the module object the table holds. Without a
  loaded package there is no object to assign to.
\<close>

definition setattr_package :: "name \<Rightarrow> pyobj \<Rightarrow> interp \<Rightarrow> interp" where
  "setattr_package n v st =
     (case sys_modules st pkg_name of
        None \<Rightarrow> st
      | Some m \<Rightarrow>
          st\<lparr>sys_modules := (sys_modules st)(pkg_name \<mapsto> m\<lparr>mod_dict := (mod_dict m)(n \<mapsto> v)\<rparr>)\<rparr>)"

subsection \<open>What a successful initialisation leaves behind\<close>

text \<open>
  A process in which neither the package nor one of its three submodules has been
  imported: the state before the first import of the package.
\<close>

definition not_loaded :: "interp \<Rightarrow> bool" where
  "not_loaded st =
     (sys_modules st pkg_name = None \<and> sys_modules st (qual ''base'') = None \<and>
      sys_modules st (qual ''packaged_datasets'') = None \<and> sys_modules st (qual ''utils'') = None)"

text \<open>The interpreter after the body of submodule \<open>sub\<close> has run and built \<open>d\<close>.\<close>

definition loaded :: "interp \<Rightarrow> name \<Rightarrow> namespace \<Rightarrow> interp" where
  "loaded st sub d =
     st\<lparr>next_id := next_id st + 1, executed := executed st @ [qual sub],
        sys_modules := (sys_modules st)(qual sub \<mapsto> \<lparr>mod_id = next_id st, mod_dict = d\<rparr>)\<rparr>"

text \<open>
  The names \<^verbatim>\<open>from m import *\<close> binds when it succeeds, and the condition under which it
  succeeds, both read off the dictionary of \<open>m\<close>.
\<close>

definition star_binds :: "namespace \<Rightarrow> name \<Rightarrow> bool" where
  "star_binds src n =
     (case src ''__all__'' of
        None \<Rightarrow> \<not> leading_underscore n \<and> src n \<noteq> None
      | Some a \<Rightarrow> (case a of StrList names \<Rightarrow> n \<in> set names | _ \<Rightarrow> False))"

definition star_ok :: "namespace \<Rightarrow> bool" where
  "star_ok src =
     (case src ''__all__'' of
        None \<Rightarrow> True
      | Some a \<Rightarrow> (case a of StrList names \<Rightarrow> list_all (\<lambda>n. src n \<noteq> None) names | _ \<Rightarrow> False))"

text \<open>The names lines 1 to 6 import from \<^verbatim>\<open>base\<close>, and lines 7 to 13 from \<^verbatim>\<open>packaged_datasets\<close>.\<close>

definition base_names :: "name list" where
  "base_names = [''BaseDataset'', ''Dataset'', ''DirDataset'', ''FileDataset'', ''is_dataset'',
                 ''PathDataset'']"

definition packaged_names :: "name list" where
  "packaged_names = [''Mariana'', ''PackagedDataset'', ''SCSN'', ''Wenchuan'', ''SCSN_polarity'',
                     ''Taiwan_focal_mechanism'', ''Taiwan20092010'']"

text \<open>
  The dictionary of the package after its body has run in a process where nothing was
  loaded, in closed form: a later statement of the file wins over an earlier one. \<open>B\<close>,
  \<open>P\<close> and \<open>U\<close> are the dictionaries of the three submodules and \<open>i\<close> is the identity of
  the package; the submodules get the next three identities.
\<close>

definition package_dict :: "string list list \<Rightarrow> namespace \<Rightarrow> namespace \<Rightarrow> namespace \<Rightarrow> nat \<Rightarrow> namespace" where
  "package_dict lit B P U i = (\<lambda>x.
      if x = ''__all__'' then Some (StrList (map concat lit))
      else if star_binds U x then U x
      else if x = ''utils'' then Some (ModuleRef (i + 3))
      else if x \<in> set packaged_names then P x
      else if x = ''packaged_datasets'' then Some (ModuleRef (i + 2))
      else if x \<in> set base_names then B x
      else if x = ''base'' then Some (ModuleRef (i + 1))
      else None)"

text \<open>
  The list display with the comma between its last two literals, as the example scenario
  of the specification lists it: twelve names.
\<close>

definition corrected_literal :: "string list list" where
  "corrected_literal =
    [[''BaseDataset''],
     [''PathDataset''],
     [''FileDataset''],
     [''DirDataset''],
     [''Dataset''],
     [''PackagedDataset''],
     [''Wenchuan''],
     [''Mariana''],
     [''SCSN''],
     [''SCSN_polarity''],
     [''Taiwan_focal_mechanism''],
     [''Taiwan20092010'']]"

definition corrected_list :: "name list" where
  "corrected_list = map concat corrected_literal"

subsection \<open>Example collaborators\<close>

text \<open>
  Three submodules that export what the file asks for. \<^verbatim>\<open>utils\<close> has no \<^verbatim>\<open>__all__\<close>, two
  public helpers and a private one.
\<close>

definition example_base :: namespace where
  "example_base = map_of
    [(''BaseDataset'', Ref 1), (''Dataset'', Ref 2), (''DirDataset'', Ref 3),
     (''FileDataset'', Ref 4), (''is_dataset'', Ref 5), (''PathDataset'', Ref 6)]"

definition example_packaged :: namespace where
  "example_packaged = map_of
    [(''Mariana'', Ref 11), (''PackagedDataset'', Ref 12), (''SCSN'', Ref 13),
     (''Wenchuan'', Ref 14), (''SCSN_polarity'', Ref 15),
     (''Taiwan_focal_mechanism'', Ref 16), (''Taiwan20092010'', Ref 17)]"

definition example_utils :: namespace where
  "example_utils = map_of
    [(''download_url'', Ref 21), (''extract_tar'', Ref 22), (''_progress'', Ref 23)]"

definition example_loaders :: loaders where
  "example_loaders sub =
     (if sub = ''base'' then Inr example_base
      else if sub = ''packaged_datasets'' then Inr example_packaged
      else if sub = ''utils'' then Inr example_utils
      else Inl (LoadFailure sub))"

definition fresh_interp :: interp where
  "fresh_interp = \<lparr>sys_modules = Map.empty, next_id = 0, executed = []\<rparr>"

text \<open>The same collaborators with \<^verbatim>\<open>SCSN\<close> taken out of \<^verbatim>\<open>packaged_datasets\<close>.\<close>

definition packaged_without_SCSN :: namespace where
  "packaged_without_SCSN = map_of
    [(''Mariana'', Ref 11), (''PackagedDataset'', Ref 12),
     (''Wenchuan'', Ref 14), (''SCSN_polarity'', Ref 15),
     (''Taiwan_focal_mechanism'', Ref 16), (''Taiwan20092010'', Ref 17)]"

definition broken_loaders :: loaders where
  "broken_loaders sub =
     (if sub = ''base'' then Inr example_base
      else if sub = ''packaged_datasets'' then Inr packaged_without_SCSN
      else if sub = ''utils'' then Inr example_utils
      else Inl (LoadFailure sub))"

text \<open>
  The same collaborators with a \<^verbatim>\<open>utils\<close> that has a public name \<^verbatim>\<open>Dataset\<close> of its own.
\<close>

definition shadowing_utils :: namespace where
  "shadowing_utils = map_of [(''download_url'', Ref 21), (''Dataset'', Ref 31)]"

definition shadowing_loaders :: loaders where
  "shadowing_loaders sub =
     (if sub = ''base'' then Inr example_base
      else if sub = ''packaged_datasets'' then Inr example_packaged
      else if sub = ''utils'' then Inr shadowing_utils
      else Inl (LoadFailure sub))"

section \<open>The import statement, step by step\<close>

lemma qual_inj [simp]: "qual a = qual b \<longleftrightarrow> a = b"
  by (simp add: qual_def)

lemma qual_not_pkg [simp]: "qual a \<noteq> pkg_name" "pkg_name \<noteq> qual a"
  by (simp_all add: qual_def)

lemma loaded_simps [simp]:
  "next_id (loaded st sub d) = next_id st + 1"
  "sys_modules (loaded st sub d) k =
     (if k = qual sub then Some \<lparr>mod_id = next_id st, mod_dict = d\<rparr> else sys_modules st k)"
  "executed (loaded st sub d) = executed st @ [qual sub]"
  by (simp_all add: loaded_def)

subsection \<open>Binding the names of a list\<close>

text \<open>
  The loop of the wildcard import in closed form: it stops at the first name the module
  lacks, having bound the names before it.
\<close>

lemma bind_names_eq:
  "bind_names mn src names scope =
     (case List.find (\<lambda>n. src n = None) names of
        None \<Rightarrow> (None, \<lambda>x. if x \<in> set names then src x else scope x)
      | Some n \<Rightarrow> (Some (AttributeError mn n),
                   \<lambda>x. if x \<in> set (takeWhile (\<lambda>n. src n \<noteq> None) names) then src x else scope x))"
proof (induction names arbitrary: scope)
  case Nil
  then show ?case by simp
next
  case (Cons a names)
  show ?case
  proof (cases "src a")
    case None
    then show ?thesis by simp
  next
    case (Some v)
    have "bind_names mn src (a # names) scope = bind_names mn src names (scope(a \<mapsto> v))"
      using Some by simp
    also have "\<dots> =
     (case List.find (\<lambda>n. src n = None) names of
        None \<Rightarrow> (None, \<lambda>x. if x \<in> set names then src x else (scope(a \<mapsto> v)) x)
      | Some n \<Rightarrow> (Some (AttributeError mn n),
                   \<lambda>x. if x \<in> set (takeWhile (\<lambda>n. src n \<noteq> None) names) then src x
                        else (scope(a \<mapsto> v)) x))"
      by (rule Cons.IH)
    also have "\<dots> =
     (case List.find (\<lambda>n. src n = None) (a # names) of
        None \<Rightarrow> (None, \<lambda>x. if x \<in> set (a # names) then src x else scope x)
      | Some n \<Rightarrow> (Some (AttributeError mn n),
                   \<lambda>x. if x \<in> set (takeWhile (\<lambda>n. src n \<noteq> None) (a # names)) then src x
                        else scope x))"
      using Some by (auto simp: fun_eq_iff split: option.splits)
    finally show ?thesis .
  qed
qed

lemma bind_names_ok:
  "bind_names mn src names scope = (None, scope') \<Longrightarrow>
   scope' x = (if x \<in> set names then src x else scope x) \<and> (\<forall>n\<in>set names. src n \<noteq> None)"
proof (induction names arbitrary: scope)
  case Nil
  then show ?case by simp
next
  case (Cons a names)
  then show ?case by (auto split: option.splits)
qed

lemma bind_names_frame:
  "x \<notin> set names \<Longrightarrow> snd (bind_names mn src names scope) x = scope x"
  by (auto simp: bind_names_eq split: option.splits dest: set_takeWhileD)

subsection \<open>The wildcard import\<close>

lemma import_star_all:
  "src ''__all__'' = Some (StrList names) \<Longrightarrow>
   import_star mn src scope = bind_names mn src names scope"
  by (simp add: import_star_def)

lemma import_star_ok:
  assumes "import_star mn src scope = (None, scope')"
  shows "scope' x = (if star_binds src x then src x else scope x)"
proof (cases "src ''__all__''")
  case None
  with assms have "scope' = (\<lambda>n. if leading_underscore n then scope n
                       else (case src n of None \<Rightarrow> scope n | Some v \<Rightarrow> Some v))"
    by (simp add: import_star_def)
  with None show ?thesis
    by (simp add: star_binds_def split: option.splits)
next
  case (Some a)
  with assms obtain names where a: "a = StrList names"
    and b: "bind_names mn src names scope = (None, scope')"
    by (cases a) (simp_all add: import_star_def)
  from bind_names_ok [OF b, of x] Some a show ?thesis
    by (simp add: star_binds_def)
qed

lemma import_star_ok_star_ok:
  assumes "import_star mn src scope = (None, scope')"
  shows "star_ok src"
proof (cases "src ''__all__''")
  case None
  then show ?thesis by (simp add: star_ok_def)
next
  case (Some a)
  with assms obtain names where a: "a = StrList names"
    and b: "bind_names mn src names scope = (None, scope')"
    by (cases a) (simp_all add: import_star_def)
  from bind_names_ok [OF b] Some a show ?thesis
    by (simp add: star_ok_def list_all_iff)
qed

lemma import_star_succeeds:
  assumes "star_ok src"
  shows "\<exists>scope'. import_star mn src scope = (None, scope')"
proof (cases "src ''__all__''")
  case None
  then show ?thesis by (simp add: import_star_def)
next
  case (Some a)
  with assms obtain names where a: "a = StrList names" and ok: "list_all (\<lambda>n. src n \<noteq> None) names"
    by (cases a) (simp_all add: star_ok_def)
  from ok have "List.find (\<lambda>n. src n = None) names = None"
    by (simp add: find_None_iff list_all_iff)
  with Some a show ?thesis
    by (simp add: import_star_def bind_names_eq)
qed

lemma star_binds_bound:
  assumes "star_ok src" and "star_binds src x"
  shows "src x \<noteq> None"
proof (cases "src ''__all__''")
  case None
  with assms(2) show ?thesis by (simp add: star_binds_def)
next
  case (Some a)
  with assms show ?thesis
    by (cases a) (auto simp: star_binds_def star_ok_def list_all_iff)
qed

subsection \<open>One statement\<close>

lemma from_import_cached:
  "sys_modules st (qual sub) = Some m \<Longrightarrow>
   exec_stmt ld (FromImport sub n) (ns, st) =
     (case mod_dict m n of
        None \<Rightarrow> (Inl (ImportError (qual sub) n), st)
      | Some v \<Rightarrow> (Inr (ns(n \<mapsto> v)), st))"
  by (simp add: import_submodule_def)

lemma from_import_fresh:
  "sys_modules st (qual sub) = None \<Longrightarrow>
   exec_stmt ld (FromImport sub n) (ns, st) =
     (case ld sub of
        Inl e \<Rightarrow> (Inl e, st\<lparr>next_id := next_id st + 1, executed := executed st @ [qual sub]\<rparr>)
      | Inr d \<Rightarrow>
          (case d n of
             None \<Rightarrow> (Inl (ImportError (qual sub) n), loaded st sub d)
           | Some v \<Rightarrow> (Inr (ns(sub \<mapsto> ModuleRef (next_id st), n \<mapsto> v)), loaded st sub d)))"
  by (simp add: import_submodule_def loaded_def Let_def split: sum.splits option.splits)

lemma star_fresh:
  assumes "sys_modules st (qual sub) = None"
    and "exec_stmt ld (FromImportStar sub) (ns, st) = (Inr ns', st')"
  shows "\<exists>d. ld sub = Inr d \<and> st' = loaded st sub d \<and> star_ok d \<and>
         ns' x = (if star_binds d x then d x
                     else if x = sub then Some (ModuleRef (next_id st)) else ns x)"
proof -
  from assms obtain d where d: "ld sub = Inr d" and st': "st' = loaded st sub d"
    and s: "import_star (qual sub) d (ns(sub \<mapsto> ModuleRef (next_id st))) = (None, ns')"
    by (auto simp: import_submodule_def loaded_def Let_def
        split: sum.splits option.splits prod.splits)
  from import_star_ok [OF s, of x] import_star_ok_star_ok [OF s] d st' show ?thesis
    by simp
qed

lemma star_fresh_ok:
  assumes "sys_modules st (qual sub) = None" and "ld sub = Inr d" and "star_ok d"
  shows "\<exists>ns'. exec_stmt ld (FromImportStar sub) (ns, st) = (Inr ns', loaded st sub d)"
proof -
  from import_star_succeeds [OF assms(3)] obtain scope' where
    "import_star (qual sub) d (ns(sub \<mapsto> ModuleRef (next_id st))) = (None, scope')"
    by blast
  with assms(1,2) show ?thesis
    by (simp add: import_submodule_def loaded_def Let_def)
qed

lemma exec_stmt_pkg_entry:
  "exec_stmt ld s (ns, st) = (r, st') \<Longrightarrow> sys_modules st' pkg_name = sys_modules st pkg_name"
  by (cases s)
     (auto simp: import_submodule_def Let_def split: option.splits sum.splits prod.splits)

subsection \<open>A run of statements\<close>

lemma exec_body_pkg_entry:
  "exec_body ld ss (ns, st) = (r, st') \<Longrightarrow> sys_modules st' pkg_name = sys_modules st pkg_name"
proof (induction ss arbitrary: ns st)
  case Nil
  then show ?case by simp
next
  case (Cons s ss)
  obtain r1 st1 where s1: "exec_stmt ld s (ns, st) = (r1, st1)"
    by (cases "exec_stmt ld s (ns, st)")
  note e = exec_stmt_pkg_entry [OF s1]
  show ?case
  proof (cases r1)
    case (Inl err)
    with Cons.prems s1 e show ?thesis by (simp del: exec_stmt.simps)
  next
    case (Inr ns1)
    with Cons.prems s1 have "exec_body ld ss (ns1, st1) = (r, st')"
      by (simp del: exec_stmt.simps)
    from Cons.IH [OF this] e show ?thesis by simp
  qed
qed

lemma exec_body_append:
  "exec_body ld (ss @ ts) (ns, st) =
     (case exec_body ld ss (ns, st) of
        (Inl e, st') \<Rightarrow> (Inl e, st')
      | (Inr ns', st') \<Rightarrow> exec_body ld ts (ns', st'))"
  by (induction ss arbitrary: ns st) (auto split: sum.splits prod.splits)

lemma exec_body_split:
  assumes "exec_body ld (ss @ ts) (ns, st) = (Inr ns', st')"
  obtains ns1 st1 where "exec_body ld ss (ns, st) = (Inr ns1, st1)"
    and "exec_body ld ts (ns1, st1) = (Inr ns', st')"
  using assms by (auto simp: exec_body_append split: sum.splits prod.splits)

lemma from_block_cached:
  assumes "sys_modules st (qual sub) = Some m"
    and "exec_body ld (map (FromImport sub) names) (ns, st) = (Inr ns', st')"
  shows "st' = st \<and> (\<forall>n\<in>set names. mod_dict m n \<noteq> None) \<and>
         ns' x = (if x \<in> set names then mod_dict m x else ns x)"
  using assms
proof (induction names arbitrary: ns)
  case Nil
  then show ?case by simp
next
  case (Cons n names)
  from Cons.prems obtain v where v: "mod_dict m n = Some v"
    and rest: "exec_body ld (map (FromImport sub) names) (ns(n \<mapsto> v), st) = (Inr ns', st')"
    by (auto simp: from_import_cached simp del: exec_stmt.simps split: option.splits)
  from Cons.IH [OF Cons.prems(1) rest] v show ?case
    by auto
qed

lemma from_block_fresh:
  assumes "sys_modules st (qual sub) = None"
    and "exec_body ld (map (FromImport sub) (n # names)) (ns, st) = (Inr ns', st')"
  shows "\<exists>d. ld sub = Inr d \<and> st' = loaded st sub d \<and> (\<forall>x\<in>set (n # names). d x \<noteq> None) \<and>
         ns' x = (if x \<in> set (n # names) then d x
                     else if x = sub then Some (ModuleRef (next_id st)) else ns x)"
proof -
  from assms obtain d v where d: "ld sub = Inr d" and v: "d n = Some v"
    and rest: "exec_body ld (map (FromImport sub) names)
                 (ns(sub \<mapsto> ModuleRef (next_id st), n \<mapsto> v), loaded st sub d) = (Inr ns', st')"
    by (auto simp: from_import_fresh simp del: exec_stmt.simps split: option.splits sum.splits)
  have c: "sys_modules (loaded st sub d) (qual sub) = Some \<lparr>mod_id = next_id st, mod_dict = d\<rparr>"
    by simp
  from from_block_cached [OF c rest, of x] d v show ?thesis
    by auto
qed

lemma from_block_cached_ok:
  assumes "sys_modules st (qual sub) = Some m" and "\<forall>n\<in>set names. mod_dict m n \<noteq> None"
  shows "\<exists>ns'. exec_body ld (map (FromImport sub) names) (ns, st) = (Inr ns', st)"
  using assms
proof (induction names arbitrary: ns)
  case Nil
  then show ?case by simp
next
  case (Cons n names)
  from Cons.prems obtain v where v: "mod_dict m n = Some v" by auto
  have "\<forall>n\<in>set names. mod_dict m n \<noteq> None" using Cons.prems(2) by simp
  from Cons.IH [OF Cons.prems(1) this] obtain ns' where
    "exec_body ld (map (FromImport sub) names) (ns(n \<mapsto> v), st) = (Inr ns', st)" by blast
  with v Cons.prems(1) show ?case
    by (simp add: from_import_cached del: exec_stmt.simps)
qed

lemma from_block_fresh_ok:
  assumes "sys_modules st (qual sub) = None" and "ld sub = Inr d"
    and "\<forall>x\<in>set (n # names). d x \<noteq> None"
  shows "\<exists>ns'. exec_body ld (map (FromImport sub) (n # names)) (ns, st) = (Inr ns', loaded st sub d)"
proof -
  from assms obtain v where v: "d n = Some v" by auto
  have c: "sys_modules (loaded st sub d) (qual sub) = Some \<lparr>mod_id = next_id st, mod_dict = d\<rparr>"
    by simp
  have "\<forall>x\<in>set names. mod_dict \<lparr>mod_id = next_id st, mod_dict = d\<rparr> x \<noteq> None"
    using assms(3) by simp
  from from_block_cached_ok [OF c this] obtain ns' where
    "exec_body ld (map (FromImport sub) names)
       (ns(sub \<mapsto> ModuleRef (next_id st), n \<mapsto> v), loaded st sub d) = (Inr ns', loaded st sub d)"
    by blast
  with v assms(1,2) show ?thesis
    by (simp add: from_import_fresh del: exec_stmt.simps)
qed

section \<open>The body of the file\<close>

lemma import_lines_blocks:
  "import_lines = map (FromImport ''base'') base_names @
     map (FromImport ''packaged_datasets'') packaged_names @ [FromImportStar ''utils'']"
  by (simp add: import_lines_def base_names_def packaged_names_def)

lemma from_import_in_source:
  "FromImport sub n \<in> set (package_source_with lit) \<longleftrightarrow>
     sub = ''base'' \<and> n \<in> set base_names \<or> sub = ''packaged_datasets'' \<and> n \<in> set packaged_names"
  by (auto simp: package_source_with_def import_lines_blocks)

text \<open>
  When the body finishes in a process where nothing was loaded, the three submodules
  loaded, every imported name was there, and the dictionary it built is known name by
  name.
\<close>

lemma exec_import_lines:
  assumes nl: "not_loaded st"
    and ex: "exec_body ld (package_source_with lit) (ns, st) = (Inr ns', st')"
  shows "\<exists>B P U. ld ''base'' = Inr B \<and> ld ''packaged_datasets'' = Inr P \<and> ld ''utils'' = Inr U \<and>
           (\<forall>n\<in>set base_names. B n \<noteq> None) \<and> (\<forall>n\<in>set packaged_names. P n \<noteq> None) \<and>
           star_ok U \<and>
           st' = loaded (loaded (loaded st ''base'' B) ''packaged_datasets'' P) ''utils'' U \<and>
           (\<forall>x. ns' x =
             (if x = ''__all__'' then Some (StrList (map concat lit))
              else if star_binds U x then U x
              else if x = ''utils'' then Some (ModuleRef (next_id st + 2))
              else if x \<in> set packaged_names then P x
              else if x = ''packaged_datasets'' then Some (ModuleRef (next_id st + 1))
              else if x \<in> set base_names then B x
              else if x = ''base'' then Some (ModuleRef (next_id st))
              else ns x))"
proof -
  from nl have nb: "sys_modules st (qual ''base'') = None"
    and np: "sys_modules st (qual ''packaged_datasets'') = None"
    and nu: "sys_modules st (qual ''utils'') = None"
    by (simp_all add: not_loaded_def)
  from ex have ex': "exec_body ld (map (FromImport ''base'') base_names @
     (map (FromImport ''packaged_datasets'') packaged_names @
      ([FromImportStar ''utils''] @ [AssignList ''__all__'' lit]))) (ns, st) = (Inr ns', st')"
    by (simp add: package_source_with_def import_lines_blocks)
  from ex' obtain ns1 st1 where
    e1: "exec_body ld (map (FromImport ''base'') base_names) (ns, st) = (Inr ns1, st1)" and
    r1: "exec_body ld (map (FromImport ''packaged_datasets'') packaged_names @
      ([FromImportStar ''utils''] @ [AssignList ''__all__'' lit])) (ns1, st1) = (Inr ns', st')"
    by (rule exec_body_split)
  from r1 obtain ns2 st2 where
    e2: "exec_body ld (map (FromImport ''packaged_datasets'') packaged_names) (ns1, st1) = (Inr ns2, st2)" and
    r2: "exec_body ld ([FromImportStar ''utils''] @ [AssignList ''__all__'' lit]) (ns2, st2) = (Inr ns', st')"
    by (rule exec_body_split)
  from r2 obtain ns3 where
    e3: "exec_stmt ld (FromImportStar ''utils'') (ns2, st2) = (Inr ns3, st')" and
    e4: "ns' = ns3(''__all__'' \<mapsto> StrList (map concat lit))"
    by (auto split: sum.splits prod.splits)
  have bn: "base_names = ''BaseDataset'' # tl base_names" by (simp add: base_names_def)
  have pn: "packaged_names = ''Mariana'' # tl packaged_names" by (simp add: packaged_names_def)
  from e1 have e1': "exec_body ld (map (FromImport ''base'') (''BaseDataset'' # tl base_names)) (ns, st) = (Inr ns1, st1)"
    using bn by simp
  from from_block_fresh [OF nb e1'] bn obtain B where
    B: "ld ''base'' = Inr B" and s1: "st1 = loaded st ''base'' B"
    and Bn: "\<forall>x\<in>set base_names. B x \<noteq> None"
    by auto
  have v1: "ns1 x = (if x \<in> set base_names then B x
                     else if x = ''base'' then Some (ModuleRef (next_id st)) else ns x)" for x
    using from_block_fresh [OF nb e1', of x] bn B by auto
  have np1: "sys_modules st1 (qual ''packaged_datasets'') = None"
    using np s1 by simp
  from e2 have e2': "exec_body ld (map (FromImport ''packaged_datasets'') (''Mariana'' # tl packaged_names)) (ns1, st1) = (Inr ns2, st2)"
    using pn by simp
  from from_block_fresh [OF np1 e2'] pn obtain P where
    P: "ld ''packaged_datasets'' = Inr P" and s2: "st2 = loaded st1 ''packaged_datasets'' P"
    and Pn: "\<forall>x\<in>set packaged_names. P x \<noteq> None"
    by auto
  have v2: "ns2 x = (if x \<in> set packaged_names then P x
                     else if x = ''packaged_datasets'' then Some (ModuleRef (next_id st1)) else ns1 x)" for x
    using from_block_fresh [OF np1 e2', of x] pn P by auto
  have nu2: "sys_modules st2 (qual ''utils'') = None"
    using nu s1 s2 by simp
  from star_fresh [OF nu2 e3] obtain U where
    U: "ld ''utils'' = Inr U" and s3: "st' = loaded st2 ''utils'' U" and Uok: "star_ok U"
    by auto
  have v3: "ns3 x = (if star_binds U x then U x
                     else if x = ''utils'' then Some (ModuleRef (next_id st2)) else ns2 x)" for x
    using star_fresh [OF nu2 e3, of x] U by auto
  have ids: "next_id st1 = next_id st + 1" "next_id st2 = next_id st + 2"
    using s1 s2 by simp_all
  have "\<forall>x. ns' x =
             (if x = ''__all__'' then Some (StrList (map concat lit))
              else if star_binds U x then U x
              else if x = ''utils'' then Some (ModuleRef (next_id st + 2))
              else if x \<in> set packaged_names then P x
              else if x = ''packaged_datasets'' then Some (ModuleRef (next_id st + 1))
              else if x \<in> set base_names then B x
              else if x = ''base'' then Some (ModuleRef (next_id st))
              else ns x)"
    using e4 v1 v2 v3 ids by simp
  moreover have "st' = loaded (loaded (loaded st ''base'' B) ''packaged_datasets'' P) ''utils'' U"
    using s1 s2 s3 by simp
  ultimately show ?thesis
    using B P U Bn Pn Uok by blast
qed

text \<open>The converse: with such collaborators the body finishes.\<close>

lemma exec_import_lines_ok:
  assumes nl: "not_loaded st"
    and B: "ld ''base'' = Inr B" and P: "ld ''packaged_datasets'' = Inr P" and U: "ld ''utils'' = Inr U"
    and Bn: "\<forall>n\<in>set base_names. B n \<noteq> None" and Pn: "\<forall>n\<in>set packaged_names. P n \<noteq> None"
    and Uok: "star_ok U"
  shows "\<exists>ns' st'. exec_body ld (package_source_with lit) (ns, st) = (Inr ns', st')"
proof -
  from nl have nb: "sys_modules st (qual ''base'') = None"
    and np: "sys_modules st (qual ''packaged_datasets'') = None"
    and nu: "sys_modules st (qual ''utils'') = None"
    by (simp_all add: not_loaded_def)
  have bn: "base_names = ''BaseDataset'' # tl base_names" by (simp add: base_names_def)
  have pn: "packaged_names = ''Mariana'' # tl packaged_names" by (simp add: packaged_names_def)
  have "\<forall>x\<in>set (''BaseDataset'' # tl base_names). B x \<noteq> None"
    using Bn bn by simp
  from from_block_fresh_ok [where sub = "''base''" and ns = ns and ld = ld and d = B, OF nb B this] bn obtain ns1 where
    e1: "exec_body ld (map (FromImport ''base'') base_names) (ns, st) = (Inr ns1, loaded st ''base'' B)"
    by auto
  have np1: "sys_modules (loaded st ''base'' B) (qual ''packaged_datasets'') = None"
    using np by simp
  have "\<forall>x\<in>set (''Mariana'' # tl packaged_names). P x \<noteq> None"
    using Pn pn by simp
  from from_block_fresh_ok [where sub = "''packaged_datasets''" and ns = ns1 and ld = ld and d = P, OF np1 P this] pn obtain ns2 where
    e2: "exec_body ld (map (FromImport ''packaged_datasets'') packaged_names) (ns1, loaded st ''base'' B) =
           (Inr ns2, loaded (loaded st ''base'' B) ''packaged_datasets'' P)"
    by auto
  have nu2: "sys_modules (loaded (loaded st ''base'' B) ''packaged_datasets'' P) (qual ''utils'') = None"
    using nu by simp
  from star_fresh_ok [where sub = "''utils''" and ns = ns2 and ld = ld and d = U, OF nu2 U Uok] obtain ns3 where
    e3: "exec_stmt ld (FromImportStar ''utils'') (ns2, loaded (loaded st ''base'' B) ''packaged_datasets'' P) =
           (Inr ns3, loaded (loaded (loaded st ''base'' B) ''packaged_datasets'' P) ''utils'' U)"
    by blast
  have "exec_body ld (map (FromImport ''base'') base_names @
     (map (FromImport ''packaged_datasets'') packaged_names @
      ([FromImportStar ''utils''] @ [AssignList ''__all__'' lit]))) (ns, st) =
      (Inr (ns3(''__all__'' \<mapsto> StrList (map concat lit))),
       loaded (loaded (loaded st ''base'' B) ''packaged_datasets'' P) ''utils'' U)"
    using e1 e2 e3 by (simp add: exec_body_append del: exec_stmt.simps) simp
  then show ?thesis
    by (simp add: package_source_with_def import_lines_blocks del: exec_stmt.simps)
qed

section \<open>Importing the package for the first time\<close>

lemma not_loaded_started:
  "not_loaded st \<Longrightarrow>
   not_loaded (st\<lparr>next_id := next_id st + 1, executed := executed st @ [pkg_name]\<rparr>)"
  by (simp add: not_loaded_def)

lemma import_package_fresh:
  assumes nl: "not_loaded st" and im: "import_package_with lit ld st = (Inr m, st')"
  shows "\<exists>B P U. ld ''base'' = Inr B \<and> ld ''packaged_datasets'' = Inr P \<and> ld ''utils'' = Inr U \<and>
     (\<forall>n\<in>set base_names. B n \<noteq> None) \<and> (\<forall>n\<in>set packaged_names. P n \<noteq> None) \<and> star_ok U \<and>
     m = \<lparr>mod_id = next_id st, mod_dict = package_dict lit B P U (next_id st)\<rparr> \<and>
     sys_modules st' pkg_name = Some m \<and> next_id st' = next_id st + 4 \<and>
     executed st' =
       executed st @ [pkg_name, qual ''base'', qual ''packaged_datasets'', qual ''utils'']"
proof -
  define st0 where "st0 = st\<lparr>next_id := next_id st + 1, executed := executed st @ [pkg_name]\<rparr>"
  from nl have n0: "sys_modules st pkg_name = None"
    by (simp add: not_loaded_def)
  from nl have nl0: "not_loaded st0"
    unfolding st0_def by (rule not_loaded_started)
  from im n0 obtain ns st1 where
    ex: "exec_body ld (package_source_with lit) (Map.empty, st0) = (Inr ns, st1)"
    and m: "m = \<lparr>mod_id = next_id st, mod_dict = ns\<rparr>"
    and st': "st' = st1\<lparr>sys_modules := (sys_modules st1)(pkg_name \<mapsto> m)\<rparr>"
    by (auto simp: import_package_with_def Let_def st0_def split: prod.splits sum.splits)
  from exec_import_lines [OF nl0 ex] obtain B P U where
    B: "ld ''base'' = Inr B" and P: "ld ''packaged_datasets'' = Inr P" and U: "ld ''utils'' = Inr U"
    and Bn: "\<forall>n\<in>set base_names. B n \<noteq> None" and Pn: "\<forall>n\<in>set packaged_names. P n \<noteq> None"
    and Uok: "star_ok U"
    and s1: "st1 = loaded (loaded (loaded st0 ''base'' B) ''packaged_datasets'' P) ''utils'' U"
    and v: "\<forall>x. ns x =
             (if x = ''__all__'' then Some (StrList (map concat lit))
              else if star_binds U x then U x
              else if x = ''utils'' then Some (ModuleRef (next_id st0 + 2))
              else if x \<in> set packaged_names then P x
              else if x = ''packaged_datasets'' then Some (ModuleRef (next_id st0 + 1))
              else if x \<in> set base_names then B x
              else if x = ''base'' then Some (ModuleRef (next_id st0))
              else Map.empty x)"
    by blast
  have i0: "next_id st0 = next_id st + 1" and x0: "executed st0 = executed st @ [pkg_name]"
    by (simp_all add: st0_def)
  have "ns = package_dict lit B P U (next_id st)"
  proof
    fix x
    from v have "ns x =
             (if x = ''__all__'' then Some (StrList (map concat lit))
              else if star_binds U x then U x
              else if x = ''utils'' then Some (ModuleRef (next_id st0 + 2))
              else if x \<in> set packaged_names then P x
              else if x = ''packaged_datasets'' then Some (ModuleRef (next_id st0 + 1))
              else if x \<in> set base_names then B x
              else if x = ''base'' then Some (ModuleRef (next_id st0))
              else Map.empty x)" by (rule spec)
    then show "ns x = package_dict lit B P U (next_id st) x"
      by (simp add: package_dict_def i0)
  qed
  with m have m': "m = \<lparr>mod_id = next_id st, mod_dict = package_dict lit B P U (next_id st)\<rparr>"
    by simp
  have "sys_modules st' pkg_name = Some m"
    using st' by simp
  moreover have "next_id st' = next_id st + 4"
    using st' s1 i0 by simp
  moreover have "executed st' =
       executed st @ [pkg_name, qual ''base'', qual ''packaged_datasets'', qual ''utils'']"
    using st' s1 x0 by simp
  ultimately show ?thesis
    using B P U Bn Pn Uok m' by blast
qed

lemma import_package_ok:
  assumes nl: "not_loaded st"
    and B: "ld ''base'' = Inr B" and P: "ld ''packaged_datasets'' = Inr P" and U: "ld ''utils'' = Inr U"
    and Bn: "\<forall>n\<in>set base_names. B n \<noteq> None" and Pn: "\<forall>n\<in>set packaged_names. P n \<noteq> None"
    and Uok: "star_ok U"
  shows "\<exists>st'. import_package_with lit ld st =
           (Inr \<lparr>mod_id = next_id st, mod_dict = package_dict lit B P U (next_id st)\<rparr>, st')"
proof -
  define st0 where "st0 = st\<lparr>next_id := next_id st + 1, executed := executed st @ [pkg_name]\<rparr>"
  from nl have n0: "sys_modules st pkg_name = None"
    by (simp add: not_loaded_def)
  from nl have nl0: "not_loaded st0"
    unfolding st0_def by (rule not_loaded_started)
  from exec_import_lines_ok [OF nl0 B P U Bn Pn Uok] obtain ns st1 where
    "exec_body ld (package_source_with lit) (Map.empty, st0) = (Inr ns, st1)"
    by blast
  with n0 obtain m st' where im: "import_package_with lit ld st = (Inr m, st')"
    by (simp add: import_package_with_def Let_def st0_def)
  from import_package_fresh [OF nl im] B P U
  have "m = \<lparr>mod_id = next_id st, mod_dict = package_dict lit B P U (next_id st)\<rparr>"
    by auto
  with im show ?thesis by blast
qed

lemma import_package_failed:
  assumes "sys_modules st pkg_name = None" and "import_package_with lit ld st = (Inl e, st')"
  shows "sys_modules st' pkg_name = None"
proof -
  define st0 where "st0 = st\<lparr>next_id := next_id st + 1, executed := executed st @ [pkg_name]\<rparr>"
  obtain r st1 where ex: "exec_body ld (package_source_with lit) (Map.empty, st0) = (r, st1)"
    by (cases "exec_body ld (package_source_with lit) (Map.empty, st0)")
  from exec_body_pkg_entry [OF ex] assms(1) have e: "sys_modules st1 pkg_name = None"
    by (simp add: st0_def)
  from assms ex have "st' = st1"
    by (cases r) (simp_all add: import_package_with_def Let_def st0_def)
  with e show ?thesis by simp
qed

lemma import_package_cached:
  "sys_modules st pkg_name = Some m \<Longrightarrow> import_package_with lit ld st = (Inr m, st)"
  by (simp add: import_package_with_def)

lemma import_package_entry:
  assumes "import_package_with lit ld st = (Inr m, st')"
  shows "sys_modules st' pkg_name = Some m"
proof (cases "sys_modules st pkg_name")
  case None
  with assms show ?thesis
    by (auto simp: import_package_with_def Let_def split: prod.splits sum.splits)
next
  case (Some m')
  with assms show ?thesis
    by (simp add: import_package_with_def)
qed

text \<open>The wildcard import of the initialised package walks the list bound to \<^verbatim>\<open>__all__\<close>.\<close>

lemma package_dict_all [simp]:
  "package_dict lit B P U i ''__all__'' = Some (StrList (map concat lit))"
  by (simp add: package_dict_def)

lemma wildcard_import_fresh:
  assumes nl: "not_loaded st" and im: "import_package_with lit ld st = (Inr m, st')"
  shows "wildcard_import_with lit ld scope st =
           (bind_names pkg_name (mod_dict m) (map concat lit) scope, st')"
proof -
  from import_package_fresh [OF nl im] have "mod_dict m ''__all__'' = Some (StrList (map concat lit))"
    by auto
  with im show ?thesis
    by (simp add: wildcard_import_with_def import_star_all)
qed

subsection \<open>The example collaborators\<close>

lemma fresh_not_loaded: "not_loaded fresh_interp"
  by (simp add: not_loaded_def fresh_interp_def)

lemma example_base_ok: "\<forall>n\<in>set base_names. example_base n \<noteq> None"
  by (simp add: base_names_def example_base_def)

lemma example_packaged_ok: "\<forall>n\<in>set packaged_names. example_packaged n \<noteq> None"
  by (simp add: packaged_names_def example_packaged_def)

lemma example_utils_ok: "star_ok example_utils" "star_ok shadowing_utils"
  by (simp_all add: star_ok_def example_utils_def shadowing_utils_def)

lemma example_import:
  "\<exists>st'. import_package_with lit example_loaders fresh_interp =
     (Inr \<lparr>mod_id = 0, mod_dict = package_dict lit example_base example_packaged example_utils 0\<rparr>, st')"
proof -
  have "next_id fresh_interp = 0" by (simp add: fresh_interp_def)
  with import_package_ok [OF fresh_not_loaded _ _ _ example_base_ok example_packaged_ok
      example_utils_ok(1), of example_loaders lit]
  show ?thesis by (simp add: example_loaders_def)
qed

lemma shadowing_import:
  "\<exists>st'. import_package_with lit shadowing_loaders fresh_interp =
     (Inr \<lparr>mod_id = 0, mod_dict = package_dict lit example_base example_packaged shadowing_utils 0\<rparr>, st')"
proof -
  have "next_id fresh_interp = 0" by (simp add: fresh_interp_def)
  with import_package_ok [OF fresh_not_loaded _ _ _ example_base_ok example_packaged_ok
      example_utils_ok(2), of shadowing_loaders lit]
  show ?thesis by (simp add: shadowing_loaders_def)
qed

text \<open>The file executed line by line with \<^verbatim>\<open>SCSN\<close> missing: line 9 raises.\<close>

lemma broken_import_error:
  "fst (import_package broken_loaders fresh_interp) =
     Inl (ImportError ''yews.datasets.packaged_datasets'' ''SCSN'')"
  by (simp add: import_package_def import_package_with_def package_source_with_def import_lines_def
      import_submodule_def fresh_interp_def broken_loaders_def example_base_def
      packaged_without_SCSN_def example_utils_def Let_def qual_def pkg_name_def)

subsection \<open>The package dictionary, name by name\<close>

lemma package_dict_packaged:
  "n \<in> set packaged_names \<Longrightarrow>
   package_dict lit B P U i n = (if star_binds U n then U n else P n)"
  by (auto simp: package_dict_def packaged_names_def)

lemma package_dict_base:
  "n \<in> set base_names \<Longrightarrow>
   package_dict lit B P U i n = (if star_binds U n then U n else B n)"
  by (auto simp: package_dict_def packaged_names_def base_names_def)

lemma package_dict_star:
  "star_binds U n \<Longrightarrow> n \<noteq> ''__all__'' \<Longrightarrow> package_dict lit B P U i n = U n"
  by (simp add: package_dict_def)

lemma package_dict_concatenated:
  "\<not> star_binds U ''Taiwan_focal_mechanismTaiwan20092010'' \<Longrightarrow>
   package_dict lit B P U i ''Taiwan_focal_mechanismTaiwan20092010'' = None"
  by (simp add: package_dict_def packaged_names_def base_names_def)

lemma package_dict_named:
  assumes "n \<in> set base_names \<union> set packaged_names"
    and "\<forall>n\<in>set base_names. B n \<noteq> None" and "\<forall>n\<in>set packaged_names. P n \<noteq> None"
    and "star_ok U"
  shows "package_dict lit B P U i n \<noteq> None"
proof (cases "star_binds U n")
  case True
  from star_binds_bound [OF assms(4) True] True assms(1) show ?thesis
    by (auto simp: package_dict_packaged package_dict_base)
next
  case False
  with assms(1,2,3) show ?thesis
    by (auto simp: package_dict_packaged package_dict_base)
qed

lemma example_star_binds:
  "star_binds example_utils n \<longleftrightarrow> n = ''download_url'' \<or> n = ''extract_tar''"
  "star_binds shadowing_utils n \<longleftrightarrow> n = ''download_url'' \<or> n = ''Dataset''"
  by (auto simp: star_binds_def example_utils_def shadowing_utils_def)

lemma example_utils_values:
  "example_utils ''download_url'' = Some (Ref 21)"
  "example_utils ''extract_tar'' = Some (Ref 22)"
  "shadowing_utils ''download_url'' = Some (Ref 21)"
  "shadowing_utils ''Dataset'' = Some (Ref 31)"
  by (simp_all add: example_utils_def shadowing_utils_def)

lemma example_dict_values:
  "package_dict lit example_base example_packaged example_utils i ''BaseDataset'' = Some (Ref 1)"
  "package_dict lit example_base example_packaged example_utils i ''PathDataset'' = Some (Ref 6)"
  "package_dict lit example_base example_packaged example_utils i ''FileDataset'' = Some (Ref 4)"
  "package_dict lit example_base example_packaged example_utils i ''DirDataset'' = Some (Ref 3)"
  "package_dict lit example_base example_packaged example_utils i ''Dataset'' = Some (Ref 2)"
  "package_dict lit example_base example_packaged example_utils i ''PackagedDataset'' = Some (Ref 12)"
  "package_dict lit example_base example_packaged example_utils i ''Wenchuan'' = Some (Ref 14)"
  "package_dict lit example_base example_packaged example_utils i ''Mariana'' = Some (Ref 11)"
  "package_dict lit example_base example_packaged example_utils i ''SCSN'' = Some (Ref 13)"
  "package_dict lit example_base example_packaged example_utils i ''SCSN_polarity'' = Some (Ref 15)"
  "package_dict lit example_base example_packaged example_utils i ''Taiwan_focal_mechanism'' = Some (Ref 16)"
  "package_dict lit example_base example_packaged example_utils i ''Taiwan20092010'' = Some (Ref 17)"
  "package_dict lit example_base example_packaged example_utils i ''Taiwan_focal_mechanismTaiwan20092010'' = None"
  "package_dict lit example_base example_packaged example_utils i ''is_dataset'' = Some (Ref 5)"
  "package_dict lit example_base example_packaged example_utils i ''download_url'' = Some (Ref 21)"
  "package_dict lit example_base example_packaged example_utils i ''extract_tar'' = Some (Ref 22)"
  by (simp_all add: package_dict_def example_star_binds packaged_names_def base_names_def
      example_base_def example_packaged_def example_utils_values)

lemma shadowing_dict_values:
  "package_dict lit example_base example_packaged shadowing_utils i ''BaseDataset'' = Some (Ref 1)"
  "package_dict lit example_base example_packaged shadowing_utils i ''PathDataset'' = Some (Ref 6)"
  "package_dict lit example_base example_packaged shadowing_utils i ''FileDataset'' = Some (Ref 4)"
  "package_dict lit example_base example_packaged shadowing_utils i ''DirDataset'' = Some (Ref 3)"
  "package_dict lit example_base example_packaged shadowing_utils i ''Dataset'' = Some (Ref 31)"
  by (simp_all add: package_dict_def example_star_binds packaged_names_def base_names_def
      example_base_def example_packaged_def example_utils_values)

subsection \<open>The list with the comma restored\<close>

lemma corrected_list_named:
  "set corrected_list \<subseteq> set base_names \<union> set packaged_names"
  by (simp add: corrected_list_def corrected_literal_def base_names_def packaged_names_def)

lemma wildcard_import_corrected:
  assumes nl: "not_loaded st" and im: "import_package_with corrected_literal ld st = (Inr m, st')"
  shows "wildcard_import_with corrected_literal ld scope st =
           ((None, \<lambda>x. if x \<in> set corrected_list then mod_dict m x else scope x), st')"
    and "wildcard_import_with corrected_literal ld scope st' =
           ((None, \<lambda>x. if x \<in> set corrected_list then mod_dict m x else scope x), st')"
proof -
  from import_package_fresh [OF nl im] obtain B P U where
    Bn: "\<forall>n\<in>set base_names. B n \<noteq> None" and Pn: "\<forall>n\<in>set packaged_names. P n \<noteq> None"
    and Uok: "star_ok U"
    and m: "m = \<lparr>mod_id = next_id st, mod_dict = package_dict corrected_literal B P U (next_id st)\<rparr>"
    and e: "sys_modules st' pkg_name = Some m"
    by blast
  have "\<forall>x\<in>set corrected_list. mod_dict m x \<noteq> None"
  proof
    fix x assume "x \<in> set corrected_list"
    with corrected_list_named have "x \<in> set base_names \<union> set packaged_names" by blast
    from package_dict_named [OF this Bn Pn Uok] m show "mod_dict m x \<noteq> None" by simp
  qed
  then have "List.find (\<lambda>n. mod_dict m n = None) corrected_list = None"
    unfolding find_None_iff by blast
  then have b: "bind_names pkg_name (mod_dict m) corrected_list scope =
       (None, \<lambda>x. if x \<in> set corrected_list then mod_dict m x else scope x)"
    by (simp add: bind_names_eq)
  from wildcard_import_fresh [OF nl im, of scope] b
  show "wildcard_import_with corrected_literal ld scope st =
           ((None, \<lambda>x. if x \<in> set corrected_list then mod_dict m x else scope x), st')"
    by (simp add: corrected_list_def)
  have a: "mod_dict m ''__all__'' = Some (StrList corrected_list)"
    using m by (simp add: corrected_list_def)
  from import_package_cached [OF e, of corrected_literal ld] a b
  show "wildcard_import_with corrected_literal ld scope st' =
           ((None, \<lambda>x. if x \<in> set corrected_list then mod_dict m x else scope x), st')"
    by (simp add: wildcard_import_with_def import_star_all)
qed

lemma shadowing_dict_Dataset:
  "package_dict lit example_base example_packaged shadowing_utils i ''Dataset'' = Some (Ref 31)"
  by (rule shadowing_dict_values)

section \<open>The allow-list\<close>

text \<open>
  C1. In the list assigned to \<^verbatim>\<open>__all__\<close> the entries \<^verbatim>\<open>'Taiwan_focal_mechanism'\<close> and
  \<^verbatim>\<open>'Taiwan20092010'\<close> have no comma between them: the list has 11 entries, the last one
  the single string \<^verbatim>\<open>'Taiwan_focal_mechanismTaiwan20092010'\<close>, and neither of the two
  names is an entry of its own. This is the list the last statement of the file binds.
\<close>

theorem all_has_concatenated_entry:
  "all_list =
     [''BaseDataset'', ''PathDataset'', ''FileDataset'', ''DirDataset'', ''Dataset'',
      ''PackagedDataset'', ''Wenchuan'', ''Mariana'', ''SCSN'', ''SCSN_polarity'',
      ''Taiwan_focal_mechanismTaiwan20092010'']
   \<and> length all_list = 11
   \<and> ''Taiwan_focal_mechanismTaiwan20092010'' \<in> set all_list
   \<and> ''Taiwan_focal_mechanism'' \<notin> set all_list
   \<and> ''Taiwan20092010'' \<notin> set all_list
   \<and> last package_source = AssignList ''__all__'' all_literal
   \<and> exec_stmt ld (last package_source) (ns, st) = (Inr (ns(''__all__'' \<mapsto> StrList all_list)), st)"
  by (simp add: all_list_def all_literal_def package_source_def package_source_with_def)

section \<open>Attribute lookup and the allow-list\<close>

text \<open>
  C2. For every name in \<^verbatim>\<open>__all__\<close>, attribute lookup on the initialised package succeeds
  and returns an object. Evaluated with the example collaborators, which export every
  symbol the file names: the package initialises, \<^verbatim>\<open>__all__\<close> holds the entry
  \<^verbatim>\<open>'Taiwan_focal_mechanismTaiwan20092010'\<close>, and attribute lookup for that entry raises
  \<^verbatim>\<open>AttributeError\<close>.
\<close>

theorem allow_list_entry_without_attribute:
  "\<exists>m st'. import_package example_loaders fresh_interp = (Inr m, st') \<and>
     mod_dict m ''__all__'' = Some (StrList all_list) \<and>
     ''Taiwan_focal_mechanismTaiwan20092010'' \<in> set all_list \<and>
     getattr_package m ''Taiwan_focal_mechanismTaiwan20092010'' =
       Inl (AttributeError pkg_name ''Taiwan_focal_mechanismTaiwan20092010'')"
proof -
  from example_import [of all_literal] obtain st' where
    "import_package example_loaders fresh_interp =
       (Inr \<lparr>mod_id = 0, mod_dict = package_dict all_literal example_base example_packaged example_utils 0\<rparr>, st')"
    unfolding import_package_def by blast
  then show ?thesis
    by (simp add: getattr_package_def example_dict_values all_list_def all_literal_def)
qed

text \<open>
  C3. With the list as it is written, a wildcard import of the package leaves the names
  \<^verbatim>\<open>Taiwan_focal_mechanism\<close> and \<^verbatim>\<open>Taiwan20092010\<close> of the importer as they were, whether
  it is the import that initialises the package or a later one, while attribute lookup
  on the package succeeds for both. The concatenated entry names no attribute of the
  package unless the wildcard import from \<^verbatim>\<open>utils\<close> brought one in under that name.
\<close>

theorem taiwan_names_not_wildcard_visible:
  assumes "not_loaded st" and "import_package ld st = (Inr m, st')"
  shows "(\<exists>v. getattr_package m ''Taiwan_focal_mechanism'' = Inr v) \<and>
         (\<exists>v. getattr_package m ''Taiwan20092010'' = Inr v) \<and>
         snd (fst (wildcard_import ld scope st)) ''Taiwan_focal_mechanism'' =
           scope ''Taiwan_focal_mechanism'' \<and>
         snd (fst (wildcard_import ld scope st)) ''Taiwan20092010'' = scope ''Taiwan20092010'' \<and>
         snd (fst (wildcard_import ld scope st')) ''Taiwan_focal_mechanism'' =
           scope ''Taiwan_focal_mechanism'' \<and>
         snd (fst (wildcard_import ld scope st')) ''Taiwan20092010'' = scope ''Taiwan20092010'' \<and>
         (\<forall>U. ld ''utils'' = Inr U \<and> \<not> star_binds U ''Taiwan_focal_mechanismTaiwan20092010'' \<longrightarrow>
              getattr_package m ''Taiwan_focal_mechanismTaiwan20092010'' =
                Inl (AttributeError pkg_name ''Taiwan_focal_mechanismTaiwan20092010''))"
proof -
  from assms have im: "import_package_with all_literal ld st = (Inr m, st')"
    by (simp add: import_package_def)
  from import_package_fresh [OF assms(1) im] obtain B P U where
    U: "ld ''utils'' = Inr U"
    and Bn: "\<forall>n\<in>set base_names. B n \<noteq> None" and Pn: "\<forall>n\<in>set packaged_names. P n \<noteq> None"
    and Uok: "star_ok U"
    and m: "m = \<lparr>mod_id = next_id st, mod_dict = package_dict all_literal B P U (next_id st)\<rparr>"
    and e: "sys_modules st' pkg_name = Some m"
    by blast
  have a: "package_dict all_literal B P U (next_id st) ''Taiwan_focal_mechanism'' \<noteq> None"
    by (rule package_dict_named [OF _ Bn Pn Uok]) (simp add: packaged_names_def)
  have b: "package_dict all_literal B P U (next_id st) ''Taiwan20092010'' \<noteq> None"
    by (rule package_dict_named [OF _ Bn Pn Uok]) (simp add: packaged_names_def)
  have w: "wildcard_import ld scope st =
             (bind_names pkg_name (mod_dict m) all_list scope, st')"
    using wildcard_import_fresh [OF assms(1) im]
    by (simp add: wildcard_import_def all_list_def)
  have w': "wildcard_import ld scope st' =
             (bind_names pkg_name (mod_dict m) all_list scope, st')"
    using import_package_cached [OF e, of all_literal ld] m
    by (simp add: wildcard_import_def wildcard_import_with_def import_star_all all_list_def)
  have n1: "''Taiwan_focal_mechanism'' \<notin> set all_list" and n2: "''Taiwan20092010'' \<notin> set all_list"
    by (simp_all add: all_list_def all_literal_def)
  have c: "\<forall>U'. ld ''utils'' = Inr U' \<and> \<not> star_binds U' ''Taiwan_focal_mechanismTaiwan20092010'' \<longrightarrow>
              getattr_package m ''Taiwan_focal_mechanismTaiwan20092010'' =
                Inl (AttributeError pkg_name ''Taiwan_focal_mechanismTaiwan20092010'')"
    using U m by (auto simp: getattr_package_def package_dict_concatenated)
  from a b have "(\<exists>v. getattr_package m ''Taiwan_focal_mechanism'' = Inr v) \<and>
         (\<exists>v. getattr_package m ''Taiwan20092010'' = Inr v)"
    using m by (auto simp: getattr_package_def)
  with c n1 n2 show ?thesis
    by (simp add: w w' bind_names_frame)
qed

theorem taiwan_names_not_wildcard_visible_witness:
  "not_loaded fresh_interp \<and>
   (\<exists>m st'. import_package example_loaders fresh_interp = (Inr m, st') \<and>
      getattr_package m ''Taiwan_focal_mechanism'' = Inr (Ref 16) \<and>
      getattr_package m ''Taiwan20092010'' = Inr (Ref 17) \<and>
      snd (fst (wildcard_import example_loaders Map.empty fresh_interp)) ''Taiwan_focal_mechanism'' = None \<and>
      snd (fst (wildcard_import example_loaders Map.empty fresh_interp)) ''Taiwan20092010'' = None \<and>
      getattr_package m ''Taiwan_focal_mechanismTaiwan20092010'' =
        Inl (AttributeError pkg_name ''Taiwan_focal_mechanismTaiwan20092010''))"
proof -
  from example_import [of all_literal] obtain st' where
    im: "import_package example_loaders fresh_interp =
       (Inr \<lparr>mod_id = 0, mod_dict = package_dict all_literal example_base example_packaged example_utils 0\<rparr>, st')"
    unfolding import_package_def by blast
  have u: "example_loaders ''utils'' = Inr example_utils \<and>
           \<not> star_binds example_utils ''Taiwan_focal_mechanismTaiwan20092010''"
    by (simp add: example_loaders_def example_star_binds)
  from taiwan_names_not_wildcard_visible [OF fresh_not_loaded im, of Map.empty] u im fresh_not_loaded
  show ?thesis
    by (simp add: getattr_package_def example_dict_values)
qed

text \<open>
  C9. \<^verbatim>\<open>is_dataset\<close> is imported by line 5 and is not an entry of \<^verbatim>\<open>__all__\<close>: attribute
  lookup on the package succeeds for it, and a wildcard import of the package leaves the
  importer's \<^verbatim>\<open>is_dataset\<close> as it was.
\<close>

theorem is_dataset_direct_only:
  assumes "not_loaded st" and "import_package ld st = (Inr m, st')"
  shows "package_source ! 4 = FromImport ''base'' ''is_dataset'' \<and>
         ''is_dataset'' \<notin> set all_list \<and>
         (\<exists>v. getattr_package m ''is_dataset'' = Inr v) \<and>
         snd (fst (wildcard_import ld scope st)) ''is_dataset'' = scope ''is_dataset'' \<and>
         snd (fst (wildcard_import ld scope st')) ''is_dataset'' = scope ''is_dataset''"
proof -
  from assms have im: "import_package_with all_literal ld st = (Inr m, st')"
    by (simp add: import_package_def)
  from import_package_fresh [OF assms(1) im] obtain B P U where
    Bn: "\<forall>n\<in>set base_names. B n \<noteq> None" and Pn: "\<forall>n\<in>set packaged_names. P n \<noteq> None"
    and Uok: "star_ok U"
    and m: "m = \<lparr>mod_id = next_id st, mod_dict = package_dict all_literal B P U (next_id st)\<rparr>"
    and e: "sys_modules st' pkg_name = Some m"
    by blast
  have a: "package_dict all_literal B P U (next_id st) ''is_dataset'' \<noteq> None"
    by (rule package_dict_named [OF _ Bn Pn Uok]) (simp add: base_names_def)
  have w: "wildcard_import ld scope st =
             (bind_names pkg_name (mod_dict m) all_list scope, st')"
    using wildcard_import_fresh [OF assms(1) im]
    by (simp add: wildcard_import_def all_list_def)
  have w': "wildcard_import ld scope st' =
             (bind_names pkg_name (mod_dict m) all_list scope, st')"
    using import_package_cached [OF e, of all_literal ld] m
    by (simp add: wildcard_import_def wildcard_import_with_def import_star_all all_list_def)
  have n1: "''is_dataset'' \<notin> set all_list"
    by (simp add: all_list_def all_literal_def)
  have l: "package_source ! 4 = FromImport ''base'' ''is_dataset''"
    by (simp add: package_source_def package_source_with_def import_lines_def)
  from a have "\<exists>v. getattr_package m ''is_dataset'' = Inr v"
    using m by (auto simp: getattr_package_def)
  with l n1 show ?thesis
    by (simp add: w w' bind_names_frame)
qed

theorem is_dataset_direct_only_witness:
  "not_loaded fresh_interp \<and>
   (\<exists>m st'. import_package example_loaders fresh_interp = (Inr m, st') \<and>
      getattr_package m ''is_dataset'' = Inr (Ref 5) \<and>
      snd (fst (wildcard_import example_loaders Map.empty fresh_interp)) ''is_dataset'' = None \<and>
      snd (fst (wildcard_import example_loaders [''is_dataset'' \<mapsto> PyNone] st')) ''is_dataset'' =
        Some PyNone)"
proof -
  from example_import [of all_literal] obtain st' where
    im: "import_package example_loaders fresh_interp =
       (Inr \<lparr>mod_id = 0, mod_dict = package_dict all_literal example_base example_packaged example_utils 0\<rparr>, st')"
    unfolding import_package_def by blast
  from is_dataset_direct_only [OF fresh_not_loaded im, of Map.empty]
    is_dataset_direct_only [OF fresh_not_loaded im, of "[''is_dataset'' \<mapsto> PyNone]"]
    im fresh_not_loaded
  show ?thesis
    by (simp add: getattr_package_def example_dict_values)
qed

section \<open>The allow-list and the time of loading\<close>

text \<open>
  C4. Every name in \<^verbatim>\<open>__all__\<close> resolves to a symbol exported by one of the three source
  modules, and a mismatch fails when the package loads. Evaluated with the example
  collaborators: the entry \<^verbatim>\<open>'Taiwan_focal_mechanismTaiwan20092010'\<close> is exported by none of
  the three modules and is no attribute of the package, and the package loads all the
  same. No line of the file imports a symbol of that name, while each of the twelve
  names of the list with the comma restored has a \<^verbatim>\<open>from ... import\<close> line of its own,
  which raises when the symbol is missing.
\<close>

theorem load_succeeds_with_unresolved_entry:
  "''Taiwan_focal_mechanismTaiwan20092010'' \<in> set all_list \<and>
   example_base ''Taiwan_focal_mechanismTaiwan20092010'' = None \<and>
   example_packaged ''Taiwan_focal_mechanismTaiwan20092010'' = None \<and>
   example_utils ''Taiwan_focal_mechanismTaiwan20092010'' = None \<and>
   (\<exists>m st'. import_package example_loaders fresh_interp = (Inr m, st') \<and>
      mod_dict m ''Taiwan_focal_mechanismTaiwan20092010'' = None) \<and>
   ''Taiwan_focal_mechanismTaiwan20092010'' \<notin> {n. \<exists>sub. FromImport sub n \<in> set package_source} \<and>
   set corrected_list \<subseteq> {n. \<exists>sub. FromImport sub n \<in> set package_source}"
proof -
  from example_import [of all_literal] obtain st' where
    "import_package example_loaders fresh_interp =
       (Inr \<lparr>mod_id = 0, mod_dict = package_dict all_literal example_base example_packaged example_utils 0\<rparr>, st')"
    unfolding import_package_def by blast
  then have "\<exists>m st'. import_package example_loaders fresh_interp = (Inr m, st') \<and>
      mod_dict m ''Taiwan_focal_mechanismTaiwan20092010'' = None"
    by (simp add: example_dict_values)
  moreover have "''Taiwan_focal_mechanismTaiwan20092010'' \<in> set all_list"
    by (simp add: all_list_def all_literal_def)
  moreover have "example_base ''Taiwan_focal_mechanismTaiwan20092010'' = None"
    by (simp add: example_base_def)
  moreover have "example_packaged ''Taiwan_focal_mechanismTaiwan20092010'' = None"
    by (simp add: example_packaged_def)
  moreover have "example_utils ''Taiwan_focal_mechanismTaiwan20092010'' = None"
    by (simp add: example_utils_def)
  moreover have "''Taiwan_focal_mechanismTaiwan20092010'' \<notin> {n. \<exists>sub. FromImport sub n \<in> set package_source}"
    by (simp add: package_source_def from_import_in_source base_names_def packaged_names_def)
  moreover have "set corrected_list \<subseteq> {n. \<exists>sub. FromImport sub n \<in> set package_source}"
    by (auto simp: package_source_def from_import_in_source base_names_def packaged_names_def
        corrected_list_def corrected_literal_def)
  ultimately show ?thesis by blast
qed

section \<open>Failure of the initialisation\<close>

text \<open>
  C5. In a process where nothing of the package is loaded: when one of the three modules
  fails to load, or one of the names a \<^verbatim>\<open>from ... import\<close> line asks for is missing from
  its module, the import of the package raises an error, the table of modules holds no
  package afterwards, and an importer that wildcard-imports the package gets the same
  error and keeps its scope as it was.
\<close>

theorem init_fails_entirely:
  assumes "not_loaded st"
    and "(\<exists>sub e. sub \<in> {''base'', ''packaged_datasets'', ''utils''} \<and> ld sub = Inl e) \<or>
         (\<exists>sub n d. FromImport sub n \<in> set package_source \<and> ld sub = Inr d \<and> d n = None)"
  shows "\<exists>e st'. import_package ld st = (Inl e, st') \<and> sys_modules st' pkg_name = None \<and>
           wildcard_import ld scope st = ((Some e, scope), st')"
proof -
  obtain r st' where im: "import_package_with all_literal ld st = (r, st')"
    by (cases "import_package_with all_literal ld st")
  show ?thesis
  proof (cases r)
    case (Inl e)
    from assms(1) have "sys_modules st pkg_name = None"
      by (simp add: not_loaded_def)
    from import_package_failed [OF this] im Inl have "sys_modules st' pkg_name = None"
      by simp
    with im Inl show ?thesis
      by (simp add: import_package_def wildcard_import_def wildcard_import_with_def)
  next
    case (Inr m)
    with im have "import_package_with all_literal ld st = (Inr m, st')" by simp
    from import_package_fresh [OF assms(1) this] obtain B P U where
      B: "ld ''base'' = Inr B" and P: "ld ''packaged_datasets'' = Inr P" and U: "ld ''utils'' = Inr U"
      and Bn: "\<forall>n\<in>set base_names. B n \<noteq> None" and Pn: "\<forall>n\<in>set packaged_names. P n \<noteq> None"
      by blast
    from assms(2) show ?thesis
    proof
      assume "\<exists>sub e. sub \<in> {''base'', ''packaged_datasets'', ''utils''} \<and> ld sub = Inl e"
      with B P U show ?thesis by auto
    next
      assume "\<exists>sub n d. FromImport sub n \<in> set package_source \<and> ld sub = Inr d \<and> d n = None"
      then obtain sub n d where "FromImport sub n \<in> set (package_source_with all_literal)"
        and "ld sub = Inr d" and "d n = None"
        by (auto simp: package_source_def)
      with B P Bn Pn show ?thesis
        by (auto simp: from_import_in_source)
    qed
  qed
qed

theorem init_fails_entirely_witness:
  "not_loaded fresh_interp \<and>
   FromImport ''packaged_datasets'' ''SCSN'' \<in> set package_source \<and>
   broken_loaders ''packaged_datasets'' = Inr packaged_without_SCSN \<and>
   packaged_without_SCSN ''SCSN'' = None \<and>
   (\<exists>st'. import_package broken_loaders fresh_interp =
            (Inl (ImportError ''yews.datasets.packaged_datasets'' ''SCSN''), st') \<and>
      sys_modules st' pkg_name = None \<and>
      wildcard_import broken_loaders [''SCSN'' \<mapsto> PyNone] fresh_interp =
        ((Some (ImportError ''yews.datasets.packaged_datasets'' ''SCSN''), [''SCSN'' \<mapsto> PyNone]), st'))"
proof -
  have a: "FromImport ''packaged_datasets'' ''SCSN'' \<in> set package_source"
    by (simp add: package_source_def package_source_with_def import_lines_def)
  have b: "broken_loaders ''packaged_datasets'' = Inr packaged_without_SCSN"
    by (simp add: broken_loaders_def)
  have c: "packaged_without_SCSN ''SCSN'' = None"
    by (simp add: packaged_without_SCSN_def)
  from a b c have
    "(\<exists>sub e. sub \<in> {''base'', ''packaged_datasets'', ''utils''} \<and> broken_loaders sub = Inl e) \<or>
     (\<exists>sub n d. FromImport sub n \<in> set package_source \<and> broken_loaders sub = Inr d \<and> d n = None)"
    by blast
  from init_fails_entirely [OF fresh_not_loaded this, of "[''SCSN'' \<mapsto> PyNone]"]
  obtain e st' where
    r: "import_package broken_loaders fresh_interp = (Inl e, st')"
      "sys_modules st' pkg_name = None"
      "wildcard_import broken_loaders [''SCSN'' \<mapsto> PyNone] fresh_interp =
        ((Some e, [''SCSN'' \<mapsto> PyNone]), st')"
    by blast
  from r(1) broken_import_error have "e = ImportError ''yews.datasets.packaged_datasets'' ''SCSN''"
    by simp
  with r a b c fresh_not_loaded show ?thesis
    by blast
qed

section \<open>What the wildcard import of the package binds\<close>

text \<open>
  C6. A wildcard import of the package binds exactly the names in \<^verbatim>\<open>__all__\<close>. Evaluated
  with the example collaborators in a fresh process and an empty importer: the import
  binds the first ten entries and raises \<^verbatim>\<open>AttributeError\<close> at the eleventh, which stays
  unbound.
\<close>

theorem wildcard_import_raises_at_concatenated_entry:
  "\<exists>st'. wildcard_import example_loaders Map.empty fresh_interp =
     ((Some (AttributeError pkg_name ''Taiwan_focal_mechanismTaiwan20092010''),
       [''BaseDataset'' \<mapsto> Ref 1, ''PathDataset'' \<mapsto> Ref 6, ''FileDataset'' \<mapsto> Ref 4,
        ''DirDataset'' \<mapsto> Ref 3, ''Dataset'' \<mapsto> Ref 2, ''PackagedDataset'' \<mapsto> Ref 12,
        ''Wenchuan'' \<mapsto> Ref 14, ''Mariana'' \<mapsto> Ref 11, ''SCSN'' \<mapsto> Ref 13,
        ''SCSN_polarity'' \<mapsto> Ref 15]), st')"
proof -
  from example_import [of all_literal] obtain st' where
    im: "import_package_with all_literal example_loaders fresh_interp =
       (Inr \<lparr>mod_id = 0, mod_dict = package_dict all_literal example_base example_packaged example_utils 0\<rparr>, st')"
    by blast
  from wildcard_import_fresh [OF fresh_not_loaded im, of Map.empty] show ?thesis
    by (simp add: wildcard_import_def all_literal_def example_dict_values)
qed

text \<open>
  C7, as claimed: with the comma restored, a wildcard import binds 14 names, the twelve
  of the list and the wildcard exports of \<^verbatim>\<open>utils\<close>, each identical to the symbol of its
  source module. With the example collaborators, whose \<^verbatim>\<open>utils\<close> has two public names,
  the import binds the twelve names of the list and neither of the two. With a \<^verbatim>\<open>utils\<close>
  that has a public name \<^verbatim>\<open>Dataset\<close>, the import binds \<^verbatim>\<open>Dataset\<close> to the object of
  \<^verbatim>\<open>utils\<close>, not to the symbol of \<^verbatim>\<open>base\<close>, the module line 2 imports it from.
\<close>

theorem corrected_list_binds_twelve_names:
  "(\<exists>scope' st'.
     wildcard_import_with corrected_literal example_loaders Map.empty fresh_interp =
       ((None, scope'), st') \<and>
     dom scope' = set corrected_list \<and> card (dom scope') = 12 \<and>
     star_binds example_utils ''download_url'' \<and> scope' ''download_url'' = None \<and>
     star_binds example_utils ''extract_tar'' \<and> scope' ''extract_tar'' = None) \<and>
   (\<exists>scope' st'.
     wildcard_import_with corrected_literal shadowing_loaders Map.empty fresh_interp =
       ((None, scope'), st') \<and>
     import_lines ! 1 = FromImport ''base'' ''Dataset'' \<and>
     shadowing_loaders ''base'' = Inr example_base \<and>
     example_base ''Dataset'' = Some (Ref 2) \<and> scope' ''Dataset'' = Some (Ref 31))"
proof -
  from example_import [of corrected_literal] obtain st' where
    im: "import_package_with corrected_literal example_loaders fresh_interp =
       (Inr \<lparr>mod_id = 0, mod_dict = package_dict corrected_literal example_base example_packaged example_utils 0\<rparr>, st')"
    by blast
  define scope' :: namespace where "scope' =
       [''BaseDataset'' \<mapsto> Ref 1, ''PathDataset'' \<mapsto> Ref 6, ''FileDataset'' \<mapsto> Ref 4,
        ''DirDataset'' \<mapsto> Ref 3, ''Dataset'' \<mapsto> Ref 2, ''PackagedDataset'' \<mapsto> Ref 12,
        ''Wenchuan'' \<mapsto> Ref 14, ''Mariana'' \<mapsto> Ref 11, ''SCSN'' \<mapsto> Ref 13,
        ''SCSN_polarity'' \<mapsto> Ref 15, ''Taiwan_focal_mechanism'' \<mapsto> Ref 16,
        ''Taiwan20092010'' \<mapsto> Ref 17]"
  from wildcard_import_fresh [OF fresh_not_loaded im, of Map.empty]
  have w: "wildcard_import_with corrected_literal example_loaders Map.empty fresh_interp =
       ((None, scope'), st')"
    by (simp add: corrected_literal_def example_dict_values scope'_def)
  have d: "dom scope' = set corrected_list"
    by (auto simp: scope'_def corrected_list_def corrected_literal_def)
  have "distinct corrected_list" and "length corrected_list = 12"
    by (simp_all add: corrected_list_def corrected_literal_def)
  then have c: "card (set corrected_list) = 12"
    by (simp add: distinct_card)
  have u: "scope' ''download_url'' = None" "scope' ''extract_tar'' = None"
    by (simp_all add: scope'_def)
  from w d c u have first: "\<exists>scope' st'.
     wildcard_import_with corrected_literal example_loaders Map.empty fresh_interp =
       ((None, scope'), st') \<and>
     dom scope' = set corrected_list \<and> card (dom scope') = 12 \<and>
     star_binds example_utils ''download_url'' \<and> scope' ''download_url'' = None \<and>
     star_binds example_utils ''extract_tar'' \<and> scope' ''extract_tar'' = None"
    by (auto simp: example_star_binds)
  from shadowing_import [of corrected_literal] obtain st2 where
    im2: "import_package_with corrected_literal shadowing_loaders fresh_interp =
       (Inr \<lparr>mod_id = 0, mod_dict = package_dict corrected_literal example_base example_packaged shadowing_utils 0\<rparr>, st2)"
    by blast
  have in_list: "''Dataset'' \<in> set corrected_list"
    by (simp add: corrected_list_def corrected_literal_def)
  from wildcard_import_corrected(1) [OF fresh_not_loaded im2, of Map.empty] in_list
  have "\<exists>scope'.
     wildcard_import_with corrected_literal shadowing_loaders Map.empty fresh_interp =
       ((None, scope'), st2) \<and> scope' ''Dataset'' = Some (Ref 31)"
    by (simp add: shadowing_dict_Dataset)
  moreover have "import_lines ! 1 = FromImport ''base'' ''Dataset''"
    by (simp add: import_lines_def)
  moreover have "shadowing_loaders ''base'' = Inr example_base"
    by (simp add: shadowing_loaders_def)
  moreover have "example_base ''Dataset'' = Some (Ref 2)"
    by (simp add: example_base_def)
  ultimately have second: "\<exists>scope' st'.
     wildcard_import_with corrected_literal shadowing_loaders Map.empty fresh_interp =
       ((None, scope'), st') \<and>
     import_lines ! 1 = FromImport ''base'' ''Dataset'' \<and>
     shadowing_loaders ''base'' = Inr example_base \<and>
     example_base ''Dataset'' = Some (Ref 2) \<and> scope' ''Dataset'' = Some (Ref 31)"
    by blast
  from first second show ?thesis by blast
qed

text \<open>
  C7, amended. With the comma restored, a wildcard import of the package, the one that
  initialises it or any later one, binds exactly the twelve names of the list and leaves
  every other name of the importer as it was. Each is bound to the object the package
  holds under that name: the symbol of the source module (\<^verbatim>\<open>base\<close> or
  \<^verbatim>\<open>packaged_datasets\<close>), unless the wildcard import from \<^verbatim>\<open>utils\<close> bound the name, in
  which case it is the object of \<^verbatim>\<open>utils\<close>.
\<close>

theorem corrected_list_wildcard_import:
  assumes "not_loaded st" and "import_package_with corrected_literal ld st = (Inr m, st')"
  shows "\<exists>B P U scope'.
     ld ''base'' = Inr B \<and> ld ''packaged_datasets'' = Inr P \<and> ld ''utils'' = Inr U \<and>
     wildcard_import_with corrected_literal ld scope st = ((None, scope'), st') \<and>
     wildcard_import_with corrected_literal ld scope st' = ((None, scope'), st') \<and>
     (\<forall>x. scope' x = (if x \<in> set corrected_list then mod_dict m x else scope x)) \<and>
     (\<forall>x\<in>set corrected_list. mod_dict m x \<noteq> None \<and>
        mod_dict m x = (if star_binds U x then U x
                        else if x \<in> set base_names then B x else P x)) \<and>
     length corrected_list = 12 \<and> distinct corrected_list"
proof -
  from import_package_fresh [OF assms] obtain B P U where
    B: "ld ''base'' = Inr B" and P: "ld ''packaged_datasets'' = Inr P" and U: "ld ''utils'' = Inr U"
    and Bn: "\<forall>n\<in>set base_names. B n \<noteq> None" and Pn: "\<forall>n\<in>set packaged_names. P n \<noteq> None"
    and Uok: "star_ok U"
    and m: "m = \<lparr>mod_id = next_id st, mod_dict = package_dict corrected_literal B P U (next_id st)\<rparr>"
    by blast
  have v: "mod_dict m x \<noteq> None \<and>
        mod_dict m x = (if star_binds U x then U x
                        else if x \<in> set base_names then B x else P x)"
    if x: "x \<in> set corrected_list" for x
  proof -
    from x corrected_list_named have x': "x \<in> set base_names \<union> set packaged_names" by blast
    from package_dict_named [OF x' Bn Pn Uok] m have "mod_dict m x \<noteq> None"
      by simp
    moreover have "mod_dict m x = (if star_binds U x then U x
                        else if x \<in> set base_names then B x else P x)"
    proof (cases "x \<in> set base_names")
      case True
      with m show ?thesis by (simp add: package_dict_base)
    next
      case False
      with x' have "x \<in> set packaged_names" by blast
      with False m show ?thesis by (simp add: package_dict_packaged)
    qed
    ultimately show ?thesis by blast
  qed
  note w = wildcard_import_corrected [OF assms, of scope]
  have l: "length corrected_list = 12 \<and> distinct corrected_list"
    by (simp add: corrected_list_def corrected_literal_def)
  from B P U w v l show ?thesis
    by blast
qed

theorem corrected_list_wildcard_import_witness:
  "not_loaded fresh_interp \<and>
   (\<exists>m st' scope'.
      import_package_with corrected_literal example_loaders fresh_interp = (Inr m, st') \<and>
      wildcard_import_with corrected_literal example_loaders [''download_url'' \<mapsto> PyNone] fresh_interp =
        ((None, scope'), st') \<and>
      wildcard_import_with corrected_literal example_loaders [''download_url'' \<mapsto> PyNone] st' =
        ((None, scope'), st') \<and>
      scope' ''Taiwan20092010'' = Some (Ref 17) \<and> mod_dict m ''Taiwan20092010'' = Some (Ref 17) \<and>
      example_packaged ''Taiwan20092010'' = Some (Ref 17) \<and>
      scope' ''download_url'' = Some PyNone \<and> scope' ''is_dataset'' = None)"
proof -
  from example_import [of corrected_literal] obtain st' where
    im: "import_package_with corrected_literal example_loaders fresh_interp =
       (Inr \<lparr>mod_id = 0, mod_dict = package_dict corrected_literal example_base example_packaged example_utils 0\<rparr>, st')"
    by blast
  from corrected_list_wildcard_import [OF fresh_not_loaded im, of "[''download_url'' \<mapsto> PyNone]"]
  obtain scope' where
    w: "wildcard_import_with corrected_literal example_loaders [''download_url'' \<mapsto> PyNone] fresh_interp =
        ((None, scope'), st')"
       "wildcard_import_with corrected_literal example_loaders [''download_url'' \<mapsto> PyNone] st' =
        ((None, scope'), st')"
    and s: "\<forall>x. scope' x =
       (if x \<in> set corrected_list
        then mod_dict \<lparr>mod_id = 0, mod_dict = package_dict corrected_literal example_base example_packaged example_utils 0\<rparr> x
        else [''download_url'' \<mapsto> PyNone] x)"
    by blast
  have "scope' ''Taiwan20092010'' = Some (Ref 17)" "scope' ''download_url'' = Some PyNone"
    "scope' ''is_dataset'' = None"
    using s by (simp_all add: corrected_list_def corrected_literal_def example_dict_values)
  moreover have "example_packaged ''Taiwan20092010'' = Some (Ref 17)"
    by (simp add: example_packaged_def)
  ultimately show ?thesis
    using im w fresh_not_loaded by (auto simp: example_dict_values)
qed

section \<open>Importing the package again\<close>

lemma setattr_package_loaded:
  "sys_modules st pkg_name = Some m \<Longrightarrow>
   sys_modules (setattr_package n v st) pkg_name = Some (m\<lparr>mod_dict := (mod_dict m)(n \<mapsto> v)\<rparr>)"
  by (simp add: setattr_package_def)

text \<open>
  C8, as claimed: a second import returns the same namespace object without running the
  initialisation again, and after initialisation the namespace is read-only for the life
  of the process. With the example collaborators, after the package is initialised, the
  assignment \<^verbatim>\<open>yews.datasets.BaseDataset = None\<close> goes through: the next import returns
  the same module object, and its \<^verbatim>\<open>BaseDataset\<close> is no longer the class of \<^verbatim>\<open>base\<close>.
\<close>

theorem package_namespace_is_writable:
  "\<exists>m st'. import_package example_loaders fresh_interp = (Inr m, st') \<and>
     getattr_package m ''BaseDataset'' = Inr (Ref 1) \<and>
     (\<exists>m'. import_package example_loaders (setattr_package ''BaseDataset'' PyNone st') =
              (Inr m', setattr_package ''BaseDataset'' PyNone st') \<and>
           mod_id m' = mod_id m \<and> getattr_package m' ''BaseDataset'' = Inr PyNone)"
proof -
  from example_import [of all_literal] obtain st' where
    im: "import_package_with all_literal example_loaders fresh_interp =
       (Inr \<lparr>mod_id = 0, mod_dict = package_dict all_literal example_base example_packaged example_utils 0\<rparr>, st')"
    by blast
  from import_package_entry [OF im] have
    "sys_modules st' pkg_name =
       Some \<lparr>mod_id = 0, mod_dict = package_dict all_literal example_base example_packaged example_utils 0\<rparr>" .
  from import_package_cached [where lit = all_literal and ld = example_loaders,
      OF setattr_package_loaded [where n = "''BaseDataset''" and v = PyNone, OF this]] im
  show ?thesis
    by (simp add: import_package_def getattr_package_def example_dict_values)
qed

text \<open>
  C8, amended. After an import of the package that succeeded, another import returns the
  same module object and leaves the interpreter as it was: no module body runs, no module
  object is created, the table of modules is the same, however many times the package is
  imported again. A wildcard import of the package changes the importer's scope only.
  The namespace is not read-only: an assignment to an attribute of the package writes
  into that module object, and the next import returns the same object with the new
  attribute.
\<close>

theorem reimport_returns_same_module:
  assumes "import_package ld st = (Inr m, st')"
  shows "import_package ld st' = (Inr m, st') \<and>
         ((\<lambda>s. snd (import_package ld s)) ^^ k) st' = st' \<and>
         fst (import_package ld (((\<lambda>s. snd (import_package ld s)) ^^ k) st')) = Inr m \<and>
         snd (wildcard_import ld scope st') = st' \<and>
         fst (wildcard_import ld scope st') = import_star pkg_name (mod_dict m) scope \<and>
         import_package ld (setattr_package n v st') =
           (Inr (m\<lparr>mod_dict := (mod_dict m)(n \<mapsto> v)\<rparr>), setattr_package n v st') \<and>
         mod_id (m\<lparr>mod_dict := (mod_dict m)(n \<mapsto> v)\<rparr>) = mod_id m"
proof -
  from assms have im: "import_package_with all_literal ld st = (Inr m, st')"
    by (simp add: import_package_def)
  from import_package_entry [OF im] have e: "sys_modules st' pkg_name = Some m" .
  from import_package_cached [OF e, of all_literal ld]
  have r: "import_package ld st' = (Inr m, st')"
    by (simp add: import_package_def)
  have w: "wildcard_import ld scope st' = (import_star pkg_name (mod_dict m) scope, st')"
    using r by (simp add: wildcard_import_def wildcard_import_with_def import_package_def)
  have k: "((\<lambda>s. snd (import_package ld s)) ^^ k) st' = st'"
    using r by (induction k) simp_all
  from import_package_cached [where lit = all_literal and ld = ld,
      OF setattr_package_loaded [where n = n and v = v, OF e]]
  have a: "import_package ld (setattr_package n v st') =
           (Inr (m\<lparr>mod_dict := (mod_dict m)(n \<mapsto> v)\<rparr>), setattr_package n v st')"
    by (simp add: import_package_def)
  from r w k a show ?thesis by simp
qed

theorem reimport_returns_same_module_witness:
  "\<exists>m st'. import_package example_loaders fresh_interp = (Inr m, st') \<and>
     import_package example_loaders st' = (Inr m, st') \<and>
     ((\<lambda>s. snd (import_package example_loaders s)) ^^ 3) st' = st' \<and>
     snd (wildcard_import example_loaders Map.empty st') = st' \<and>
     import_package example_loaders (setattr_package ''BaseDataset'' PyNone st') =
       (Inr (m\<lparr>mod_dict := (mod_dict m)(''BaseDataset'' \<mapsto> PyNone)\<rparr>),
        setattr_package ''BaseDataset'' PyNone st')"
proof -
  from example_import [of all_literal] obtain st' where
    im: "import_package example_loaders fresh_interp =
       (Inr \<lparr>mod_id = 0, mod_dict = package_dict all_literal example_base example_packaged example_utils 0\<rparr>, st')"
    unfolding import_package_def by blast
  from reimport_returns_same_module [OF im, of 3 Map.empty "''BaseDataset''" PyNone] im
  show ?thesis
    by simp
qed

section \<open>The wildcard import from \<^verbatim>\<open>utils\<close>\<close>

text \<open>
  C10, as claimed: no symbol that line 14 brings in from \<^verbatim>\<open>utils\<close> is re-exported by a
  wildcard import of the package. With a \<^verbatim>\<open>utils\<close> that has a public name \<^verbatim>\<open>Dataset\<close>,
  line 14 binds that object in the package, \<^verbatim>\<open>'Dataset'\<close> is an entry of \<^verbatim>\<open>__all__\<close>, and
  the wildcard import of the package binds the object of \<^verbatim>\<open>utils\<close> in the importer.
\<close>

theorem utils_symbol_named_in_allow_list_is_reexported:
  "star_binds shadowing_utils ''Dataset'' \<and> shadowing_utils ''Dataset'' = Some (Ref 31) \<and>
   example_base ''Dataset'' = Some (Ref 2) \<and> ''Dataset'' \<in> set all_list \<and>
   (\<exists>r st'. wildcard_import shadowing_loaders Map.empty fresh_interp = (r, st') \<and>
      snd r ''Dataset'' = Some (Ref 31))"
proof -
  from shadowing_import [of all_literal] obtain st' where
    im: "import_package_with all_literal shadowing_loaders fresh_interp =
       (Inr \<lparr>mod_id = 0, mod_dict = package_dict all_literal example_base example_packaged shadowing_utils 0\<rparr>, st')"
    by blast
  from wildcard_import_fresh [OF fresh_not_loaded im, of Map.empty]
  have w: "wildcard_import shadowing_loaders Map.empty fresh_interp =
    (bind_names pkg_name (package_dict all_literal example_base example_packaged shadowing_utils 0)
       all_list Map.empty, st')"
    by (simp add: wildcard_import_def all_list_def)
  have b: "snd (bind_names pkg_name (package_dict all_literal example_base example_packaged shadowing_utils 0)
       all_list Map.empty) ''Dataset'' = Some (Ref 31)"
    by (simp add: all_list_def all_literal_def shadowing_dict_values split: option.splits)
  have "star_binds shadowing_utils ''Dataset''"
    by (simp add: example_star_binds)
  moreover have "shadowing_utils ''Dataset'' = Some (Ref 31)"
    by (simp add: example_utils_values)
  moreover have "example_base ''Dataset'' = Some (Ref 2)"
    by (simp add: example_base_def)
  moreover have "''Dataset'' \<in> set all_list"
    by (simp add: all_list_def all_literal_def)
  ultimately show ?thesis
    using w b by simp
qed

text \<open>
  C10, amended. Every name the wildcard import from \<^verbatim>\<open>utils\<close> binds is an attribute of
  the package, bound to the object of \<^verbatim>\<open>utils\<close> (the name \<^verbatim>\<open>__all__\<close> apart, which line 16
  assigns afterwards). A wildcard import of the package leaves such a name of the
  importer as it was whenever the name is not an entry of \<^verbatim>\<open>__all__\<close>.
\<close>

theorem utils_exports_reachable_not_reexported:
  assumes "not_loaded st" and "import_package ld st = (Inr m, st')"
    and "ld ''utils'' = Inr U" and "star_binds U x"
  shows "package_source ! 13 = FromImportStar ''utils'' \<and>
         (\<exists>v. getattr_package m x = Inr v) \<and>
         (x \<noteq> ''__all__'' \<longrightarrow> mod_dict m x = U x) \<and>
         (x \<notin> set all_list \<longrightarrow>
            snd (fst (wildcard_import ld scope st)) x = scope x \<and>
            snd (fst (wildcard_import ld scope st')) x = scope x)"
proof -
  from assms(2) have im: "import_package_with all_literal ld st = (Inr m, st')"
    by (simp add: import_package_def)
  from import_package_fresh [OF assms(1) im] assms(3) obtain B P where
    Uok: "star_ok U"
    and m: "m = \<lparr>mod_id = next_id st, mod_dict = package_dict all_literal B P U (next_id st)\<rparr>"
    and e: "sys_modules st' pkg_name = Some m"
    by auto
  have l: "package_source ! 13 = FromImportStar ''utils''"
    by (simp add: package_source_def package_source_with_def import_lines_def)
  from star_binds_bound [OF Uok assms(4)] have ux: "U x \<noteq> None" .
  have d: "x \<noteq> ''__all__'' \<longrightarrow> mod_dict m x = U x"
    using m assms(4) by (simp add: package_dict_star)
  have g: "\<exists>v. getattr_package m x = Inr v"
  proof (cases "x = ''__all__''")
    case True
    with m show ?thesis by (simp add: getattr_package_def)
  next
    case False
    with d ux show ?thesis by (auto simp: getattr_package_def)
  qed
  have w: "wildcard_import ld scope st =
             (bind_names pkg_name (mod_dict m) all_list scope, st')"
    using wildcard_import_fresh [OF assms(1) im]
    by (simp add: wildcard_import_def all_list_def)
  have w': "wildcard_import ld scope st' =
             (bind_names pkg_name (mod_dict m) all_list scope, st')"
    using import_package_cached [OF e, of all_literal ld] m
    by (simp add: wildcard_import_def wildcard_import_with_def import_star_all all_list_def)
  from l g d show ?thesis
    by (simp add: w w' bind_names_frame)
qed

theorem utils_exports_reachable_not_reexported_witness:
  "not_loaded fresh_interp \<and> example_loaders ''utils'' = Inr example_utils \<and>
   star_binds example_utils ''download_url'' \<and> ''download_url'' \<notin> set all_list \<and>
   (\<exists>m st'. import_package example_loaders fresh_interp = (Inr m, st') \<and>
      getattr_package m ''download_url'' = Inr (Ref 21) \<and>
      example_utils ''download_url'' = Some (Ref 21) \<and>
      snd (fst (wildcard_import example_loaders Map.empty fresh_interp)) ''download_url'' = None)"
proof -
  from example_import [of all_literal] obtain st' where
    im: "import_package example_loaders fresh_interp =
       (Inr \<lparr>mod_id = 0, mod_dict = package_dict all_literal example_base example_packaged example_utils 0\<rparr>, st')"
    unfolding import_package_def by blast
  have u: "example_loaders ''utils'' = Inr example_utils"
    by (simp add: example_loaders_def)
  have s: "star_binds example_utils ''download_url''"
    by (simp add: example_star_binds)
  have n: "''download_url'' \<notin> set all_list"
    by (simp add: all_list_def all_literal_def)
  from utils_exports_reachable_not_reexported [OF fresh_not_loaded im u s, of Map.empty]
    im u s n fresh_not_loaded
  show ?thesis
    by (simp add: getattr_package_def example_dict_values example_utils_values)
qed

end
